theory Spec2Isabelle
  imports Complex_Main "HOL-Library.Word"
begin

section \<open>JavaScript values used by the client\<close>

text \<open>
  A JavaScript string is a sequence of UTF-16 code units. The status messages of the
  client are Cyrillic, so each literal of the source is written out as its code units;
  ASCII literals (URLs, field names) are converted with \<open>ascii\<close>.
  JavaScript numbers are modelled by mathematical integers (all numbers the client
  handles are counts, sizes and identifiers), except the relevance score, which the
  client never computes with.
\<close>

type_synonym jsstring = "16 word list"

definition ascii :: "string \<Rightarrow> jsstring" where
  "ascii cs = map (\<lambda>c. word_of_nat (of_char c)) cs"

text \<open>\<open>String(n)\<close> and \<open>`${n}`\<close> for an integer \<open>n\<close>: decimal digits, a minus sign first.\<close>

fun digits :: "nat \<Rightarrow> jsstring" where
  "digits n = (if n < 10 then [word_of_nat (48 + n)]
               else digits (n div 10) @ [word_of_nat (48 + n mod 10)])"

declare digits.simps [simp del]

definition String :: "int \<Rightarrow> jsstring" where
  "String n = (if n < 0 then 0x2D # digits (nat (- n)) else digits (nat n))"

text \<open>
  \<open>String.prototype.trim\<close> removes the WhiteSpace and LineTerminator code points of
  ECMAScript from both ends.
\<close>

definition isWhiteSpace :: "16 word \<Rightarrow> bool" where
  "isWhiteSpace c \<longleftrightarrow>
     c \<in> {0x09, 0x0A, 0x0B, 0x0C, 0x0D, 0x20, 0xA0, 0x1680,
          0x2000, 0x2001, 0x2002, 0x2003, 0x2004, 0x2005, 0x2006, 0x2007, 0x2008,
          0x2009, 0x200A, 0x2028, 0x2029, 0x202F, 0x205F, 0x3000, 0xFEFF}"

definition trim :: "jsstring \<Rightarrow> jsstring" where
  "trim s = rev (dropWhile isWhiteSpace (rev (dropWhile isWhiteSpace s)))"

text \<open>Whatever is thrown or rejected carries a \<open>message\<close>.\<close>

datatype Error = Error (message: jsstring)

section \<open>The API client (api.ts)\<close>

subsection \<open>Response shapes\<close>

record UploadResponse =
  document_id :: jsstring
  file_name :: jsstring
  num_chars :: int
  num_chunks :: int
  encoder_name :: jsstring
  chunk_size :: int
  chunk_overlap :: int

record ChunkSummary =
  chunk_id :: int
  "text" :: jsstring

type_synonym CurrentDocumentResponse = UploadResponse

record SearchResult =
  chunk_id :: int
  score :: real
  "text" :: jsstring

record SearchResponse =
  results :: "SearchResult list"

record StorageEntry =
  file_name :: jsstring
  size_bytes :: int
  modified_at :: jsstring

record StorageUploadResponse =
  file_name :: jsstring
  size_bytes :: int
  stored :: bool

text \<open>The parameter object of \<open>loadFromStorage\<close>.\<close>

record LoadParams =
  file_name :: jsstring
  encoder_name :: jsstring
  chunk_size :: int
  chunk_overlap :: int

subsection \<open>Requests and responses of \<open>fetch\<close>\<close>

record File =
  name :: jsstring
  content :: "8 word list"

datatype form_value = FileValue File | StringValue jsstring

text \<open>A \<open>FormData\<close> keeps its entries in the order of the \<open>append\<close> calls.\<close>

type_synonym FormData = "(jsstring \<times> form_value) list"

definition append :: "FormData \<Rightarrow> jsstring \<Rightarrow> form_value \<Rightarrow> FormData" where
  "append formData k v = formData @ [(k, v)]"

datatype json = JString jsstring | JNumber int | JObject "(jsstring \<times> json) list"

text \<open>
  A request body is a \<open>FormData\<close> or the text \<open>JSON.stringify\<close> makes of a value; the
  serialisation itself is not modelled, the body is identified with the value serialised.
\<close>

datatype body = Multipart FormData | JSON_stringify json

datatype http_method = GET | POST

record request =
  url :: jsstring
  "method" :: http_method
  headers :: "(jsstring \<times> jsstring) list"
  body :: "body option"

text \<open>
  A \<open>Response\<close> is what the client observes of it: the \<open>ok\<close> flag and what the reads
  \<open>text()\<close> and \<open>json()\<close> of the body settle to. \<open>json()\<close> is typed by the caller
  (\<open>handleResponse<T>\<close>), so the response is parametrised by the shape \<open>T\<close>.
  An awaited \<open>fetch\<close> yields a response or rejects.
\<close>

record 'a Response =
  ok :: bool
  "text" :: "Error + jsstring"
  json :: "Error + 'a"

type_synonym 'a fetched = "Error + 'a Response"

subsection \<open>Asynchronous computations\<close>

text \<open>
  An \<open>async\<close> function is a computation that returns, throws, updates the component
  state \<open>'s\<close> (a React state setter), or awaits a \<open>fetch\<close> and goes on with what it
  yields. There is one \<open>Fetch\<close> constructor for each shape \<open>T\<close> at which the client
  instantiates \<open>handleResponse<T>\<close>.
\<close>

datatype ('s, 'a) async =
    Return 'a
  | Throw Error
  | SetState "'s \<Rightarrow> 's" "('s, 'a) async"
  | FetchDocument request "UploadResponse fetched \<Rightarrow> ('s, 'a) async"
  | FetchChunks request "ChunkSummary list fetched \<Rightarrow> ('s, 'a) async"
  | FetchSearch request "SearchResponse fetched \<Rightarrow> ('s, 'a) async"
  | FetchStorageList request "StorageEntry list fetched \<Rightarrow> ('s, 'a) async"
  | FetchStored request "StorageUploadResponse fetched \<Rightarrow> ('s, 'a) async"

text \<open>\<open>const x = await t; f(x)\<close>\<close>

primrec bind :: "('s, 'a) async \<Rightarrow> ('a \<Rightarrow> ('s, 'b) async) \<Rightarrow> ('s, 'b) async" where
  "bind (Return v) f = f v"
| "bind (Throw e) f = Throw e"
| "bind (SetState g t) f = SetState g (bind t f)"
| "bind (FetchDocument r k) f = FetchDocument r (\<lambda>x. bind (k x) f)"
| "bind (FetchChunks r k) f = FetchChunks r (\<lambda>x. bind (k x) f)"
| "bind (FetchSearch r k) f = FetchSearch r (\<lambda>x. bind (k x) f)"
| "bind (FetchStorageList r k) f = FetchStorageList r (\<lambda>x. bind (k x) f)"
| "bind (FetchStored r k) f = FetchStored r (\<lambda>x. bind (k x) f)"

text \<open>\<open>await t; u\<close>\<close>

definition seq :: "('s, 'a) async \<Rightarrow> ('s, 'b) async \<Rightarrow> ('s, 'b) async" where
  "seq t u = bind t (\<lambda>_. u)"

text \<open>\<open>try { t } catch (err) { h(err) }\<close>\<close>

primrec try_catch :: "('s, 'a) async \<Rightarrow> (Error \<Rightarrow> ('s, 'a) async) \<Rightarrow> ('s, 'a) async" where
  "try_catch (Return v) h = Return v"
| "try_catch (Throw e) h = h e"
| "try_catch (SetState g t) h = SetState g (try_catch t h)"
| "try_catch (FetchDocument r k) h = FetchDocument r (\<lambda>x. try_catch (k x) h)"
| "try_catch (FetchChunks r k) h = FetchChunks r (\<lambda>x. try_catch (k x) h)"
| "try_catch (FetchSearch r k) h = FetchSearch r (\<lambda>x. try_catch (k x) h)"
| "try_catch (FetchStorageList r k) h = FetchStorageList r (\<lambda>x. try_catch (k x) h)"
| "try_catch (FetchStored r k) h = FetchStored r (\<lambda>x. try_catch (k x) h)"

text \<open>\<open>try { t } finally { fin }\<close>: \<open>fin\<close> runs however \<open>t\<close> ends, then \<open>t\<close>'s outcome stands.\<close>

primrec try_finally :: "('s, 'a) async \<Rightarrow> ('s, unit) async \<Rightarrow> ('s, 'a) async" where
  "try_finally (Return v) fin = bind fin (\<lambda>_. Return v)"
| "try_finally (Throw e) fin = bind fin (\<lambda>_. Throw e)"
| "try_finally (SetState g t) fin = SetState g (try_finally t fin)"
| "try_finally (FetchDocument r k) fin = FetchDocument r (\<lambda>x. try_finally (k x) fin)"
| "try_finally (FetchChunks r k) fin = FetchChunks r (\<lambda>x. try_finally (k x) fin)"
| "try_finally (FetchSearch r k) fin = FetchSearch r (\<lambda>x. try_finally (k x) fin)"
| "try_finally (FetchStorageList r k) fin = FetchStorageList r (\<lambda>x. try_finally (k x) fin)"
| "try_finally (FetchStored r k) fin = FetchStored r (\<lambda>x. try_finally (k x) fin)"

text \<open>\<open>await p\<close> for a promise that has settled to \<open>p\<close>.\<close>

definition await :: "Error + 'a \<Rightarrow> ('s, 'a) async" where
  "await p = (case p of Inl e \<Rightarrow> Throw e | Inr v \<Rightarrow> Return v)"

subsection \<open>The client functions\<close>

definition API_BASE :: jsstring where
  "API_BASE = ascii ''http://localhost:8000''"

text \<open>The literal of \<open>handleResponse\<close>, in Russian "request error".\<close>

definition request_error_text :: jsstring where
  "request_error_text =
     [0x41E, 0x448, 0x438, 0x431, 0x43A, 0x430, 0x20,
      0x437, 0x430, 0x43F, 0x440, 0x43E, 0x441, 0x430]"

text \<open>\<open>a || b\<close> on strings: the empty string is the only falsy one.\<close>

definition or_else :: "jsstring \<Rightarrow> jsstring \<Rightarrow> jsstring" where
  "or_else a b = (if a = [] then b else a)"

definition handleResponse :: "'a Response \<Rightarrow> ('s, 'a) async" where
  "handleResponse response =
     (if \<not> ok response then
        bind (await (Response.text response))
          (\<lambda>text. Throw (Error (or_else text request_error_text)))
      else await (json response))"

definition uploadAndIndexDocument :: "FormData \<Rightarrow> ('s, UploadResponse) async" where
  "uploadAndIndexDocument formData =
     FetchDocument
       \<lparr>url = API_BASE @ ascii ''/api/upload'', method = POST, headers = [],
        body = Some (Multipart formData)\<rparr>
       (\<lambda>res. bind (await res) handleResponse)"

definition getCurrentDocument :: "unit \<Rightarrow> ('s, CurrentDocumentResponse) async" where
  "getCurrentDocument (u::unit) =
     FetchDocument
       \<lparr>url = API_BASE @ ascii ''/api/document/current'', method = GET, headers = [],
        body = None\<rparr>
       (\<lambda>res. bind (await res) handleResponse)"

definition getCurrentChunks :: "unit \<Rightarrow> ('s, ChunkSummary list) async" where
  "getCurrentChunks (u::unit) =
     FetchChunks
       \<lparr>url = API_BASE @ ascii ''/api/document/current/chunks'', method = GET, headers = [],
        body = None\<rparr>
       (\<lambda>res. bind (await res) handleResponse)"

definition searchInDocument :: "jsstring \<Rightarrow> int \<Rightarrow> ('s, SearchResponse) async" where
  "searchInDocument query topK =
     FetchSearch
       \<lparr>url = API_BASE @ ascii ''/api/search'', method = POST,
        headers = [(ascii ''Content-Type'', ascii ''application/json'')],
        body = Some (JSON_stringify
                 (JObject [(ascii ''query'', JString query), (ascii ''top_k'', JNumber topK)]))\<rparr>
       (\<lambda>res. bind (await res) handleResponse)"

definition listStorageDocuments :: "unit \<Rightarrow> ('s, StorageEntry list) async" where
  "listStorageDocuments (u::unit) =
     FetchStorageList
       \<lparr>url = API_BASE @ ascii ''/api/storage/list'', method = GET, headers = [],
        body = None\<rparr>
       (\<lambda>res. bind (await res) handleResponse)"

definition uploadToStorage :: "FormData \<Rightarrow> ('s, StorageUploadResponse) async" where
  "uploadToStorage formData =
     FetchStored
       \<lparr>url = API_BASE @ ascii ''/api/storage/upload'', method = POST, headers = [],
        body = Some (Multipart formData)\<rparr>
       (\<lambda>res. bind (await res) handleResponse)"

definition loadFromStorage :: "LoadParams \<Rightarrow> ('s, UploadResponse) async" where
  "loadFromStorage params =
     FetchDocument
       \<lparr>url = API_BASE @ ascii ''/api/storage/load'', method = POST,
        headers = [(ascii ''Content-Type'', ascii ''application/json'')],
        body = Some (JSON_stringify
                 (JObject [(ascii ''file_name'', JString (LoadParams.file_name params)),
                           (ascii ''encoder_name'', JString (LoadParams.encoder_name params)),
                           (ascii ''chunk_size'', JNumber (LoadParams.chunk_size params)),
                           (ascii ''chunk_overlap'', JNumber (LoadParams.chunk_overlap params))]))\<rparr>
       (\<lambda>res. bind (await res) handleResponse)"

section \<open>The UI controller (App.tsx)\<close>

subsection \<open>Component state\<close>

datatype encoder = mini | labse

definition encoder_text :: "encoder \<Rightarrow> jsstring" where
  "encoder_text e = (case e of mini \<Rightarrow> ascii ''mini'' | labse \<Rightarrow> ascii ''labse'')"

record HTMLInputElement =
  files :: "File list option"

text \<open>
  The \<open>useState\<close> cells of \<open>App\<close> and the file input behind \<open>uploadInputRef\<close>
  (\<open>None\<close> while the ref is \<open>null\<close>).
\<close>

record app_state =
  encoderName :: encoder
  chunkSize :: int
  chunkOverlap :: int
  currentDoc :: "CurrentDocumentResponse option"
  chunks :: "ChunkSummary list"
  storage :: "StorageEntry list"
  query :: jsstring
  topK :: int
  searchResults :: "SearchResult list"
  status :: jsstring
  isLoading :: bool
  uploadInputRef :: "HTMLInputElement option"

type_synonym 'a action = "(app_state, 'a) async"

definition setCurrentDoc :: "CurrentDocumentResponse option \<Rightarrow> unit action" where
  "setCurrentDoc v = SetState (\<lambda>s. s\<lparr>currentDoc := v\<rparr>) (Return ())"

definition setChunks :: "ChunkSummary list \<Rightarrow> unit action" where
  "setChunks v = SetState (\<lambda>s. s\<lparr>chunks := v\<rparr>) (Return ())"

definition setStorage :: "StorageEntry list \<Rightarrow> unit action" where
  "setStorage v = SetState (\<lambda>s. s\<lparr>storage := v\<rparr>) (Return ())"

definition setSearchResults :: "SearchResult list \<Rightarrow> unit action" where
  "setSearchResults v = SetState (\<lambda>s. s\<lparr>searchResults := v\<rparr>) (Return ())"

definition setStatus :: "jsstring \<Rightarrow> unit action" where
  "setStatus v = SetState (\<lambda>s. s\<lparr>status := v\<rparr>) (Return ())"

definition setIsLoading :: "bool \<Rightarrow> unit action" where
  "setIsLoading v = SetState (\<lambda>s. s\<lparr>isLoading := v\<rparr>) (Return ())"

subsection \<open>Status messages\<close>

text \<open>"Error: " followed by the message.\<close>

definition error_status :: "Error \<Rightarrow> jsstring" where
  "error_status err =
     [0x41E, 0x448, 0x438, 0x431, 0x43A, 0x430, 0x3A, 0x20] @ message err"

text \<open>"Current document: <file_name>, chunks: <num_chunks>, model: <encoder_name>".\<close>

definition current_document_status :: "UploadResponse \<Rightarrow> jsstring" where
  "current_document_status info =
     [0x422, 0x435, 0x43A, 0x443, 0x449, 0x438, 0x439, 0x20,
      0x434, 0x43E, 0x43A, 0x443, 0x43C, 0x435, 0x43D, 0x442, 0x3A, 0x20]
     @ UploadResponse.file_name info
     @ [0x2C, 0x20, 0x447, 0x430, 0x43D, 0x43A, 0x43E, 0x432, 0x3A, 0x20]
     @ String (num_chunks info)
     @ [0x2C, 0x20, 0x43C, 0x43E, 0x434, 0x435, 0x43B, 0x44C, 0x3A, 0x20]
     @ UploadResponse.encoder_name info"

text \<open>"Document not loaded", also the initial status.\<close>

definition no_document_status :: jsstring where
  "no_document_status =
     [0x414, 0x43E, 0x43A, 0x443, 0x43C, 0x435, 0x43D, 0x442, 0x20, 0x43D, 0x435, 0x20,
      0x437, 0x430, 0x433, 0x440, 0x443, 0x436, 0x435, 0x43D]"

text \<open>"No document or the chunks could not be loaded".\<close>

definition no_chunks_status :: jsstring where
  "no_chunks_status =
     [0x41D, 0x435, 0x442, 0x20, 0x434, 0x43E, 0x43A, 0x443, 0x43C, 0x435, 0x43D, 0x442,
      0x430, 0x20, 0x438, 0x43B, 0x438, 0x20, 0x43D, 0x435, 0x20, 0x443, 0x434, 0x430,
      0x43B, 0x43E, 0x441, 0x44C, 0x20, 0x437, 0x430, 0x433, 0x440, 0x443, 0x437, 0x438,
      0x442, 0x44C, 0x20, 0x447, 0x430, 0x43D, 0x43A, 0x438]"

text \<open>"Uploading the file to the storage...".\<close>

definition storage_uploading_status :: jsstring where
  "storage_uploading_status =
     [0x417, 0x430, 0x433, 0x440, 0x443, 0x437, 0x43A, 0x430, 0x20, 0x444, 0x430, 0x439,
      0x43B, 0x430, 0x20, 0x432, 0x20, 0x445, 0x440, 0x430, 0x43D, 0x438, 0x43B, 0x438,
      0x449, 0x435, 0x2E, 0x2E, 0x2E]"

text \<open>"File added to the storage".\<close>

definition storage_added_status :: jsstring where
  "storage_added_status =
     [0x424, 0x430, 0x439, 0x43B, 0x20, 0x434, 0x43E, 0x431, 0x430, 0x432, 0x43B, 0x435,
      0x43D, 0x20, 0x432, 0x20, 0x445, 0x440, 0x430, 0x43D, 0x438, 0x43B, 0x438, 0x449,
      0x435]"

text \<open>"Choose a .txt file to upload".\<close>

definition choose_file_status :: jsstring where
  "choose_file_status =
     [0x412, 0x44B, 0x431, 0x435, 0x440, 0x438, 0x442, 0x435, 0x20, 0x2E, 0x74, 0x78,
      0x74, 0x20, 0x444, 0x430, 0x439, 0x43B, 0x20, 0x434, 0x43B, 0x44F, 0x20, 0x437,
      0x430, 0x433, 0x440, 0x443, 0x437, 0x43A, 0x438]"

text \<open>"Uploading and indexing...".\<close>

definition indexing_status :: jsstring where
  "indexing_status =
     [0x417, 0x430, 0x433, 0x440, 0x443, 0x437, 0x43A, 0x430, 0x20, 0x438, 0x20, 0x438,
      0x43D, 0x434, 0x435, 0x43A, 0x441, 0x430, 0x446, 0x438, 0x44F, 0x2E, 0x2E, 0x2E]"

text \<open>"Enter a query to search".\<close>

definition enter_query_status :: jsstring where
  "enter_query_status =
     [0x412, 0x432, 0x435, 0x434, 0x438, 0x442, 0x435, 0x20, 0x437, 0x430, 0x43F, 0x440,
      0x43E, 0x441, 0x20, 0x434, 0x43B, 0x44F, 0x20, 0x43F, 0x43E, 0x438, 0x441, 0x43A,
      0x430]"

text \<open>"Searching...".\<close>

definition searching_status :: jsstring where
  "searching_status =
     [0x418, 0x434, 0x451, 0x442, 0x20, 0x43F, 0x43E, 0x438, 0x441, 0x43A, 0x2E, 0x2E, 0x2E]"

text \<open>"Results found: <n>".\<close>

definition found_status :: "nat \<Rightarrow> jsstring" where
  "found_status n =
     [0x41D, 0x430, 0x439, 0x434, 0x435, 0x43D, 0x43E, 0x20, 0x440, 0x435, 0x437, 0x443,
      0x43B, 0x44C, 0x442, 0x430, 0x442, 0x43E, 0x432, 0x3A, 0x20] @ String (int n)"

text \<open>"Loading from the storage...".\<close>

definition storage_loading_status :: jsstring where
  "storage_loading_status =
     [0x417, 0x430, 0x433, 0x440, 0x443, 0x437, 0x43A, 0x430, 0x20, 0x438, 0x437, 0x20,
      0x445, 0x440, 0x430, 0x43D, 0x438, 0x43B, 0x438, 0x449, 0x430, 0x2E, 0x2E, 0x2E]"

subsection \<open>Handlers\<close>

definition refreshStorage :: "unit action" where
  "refreshStorage =
     try_catch
       (bind (listStorageDocuments ()) (\<lambda>list. setStorage list))
       (\<lambda>err. setStatus (error_status err))"

definition refreshCurrentDocument :: "unit action" where
  "refreshCurrentDocument =
     try_catch
       (bind (getCurrentDocument ()) (\<lambda>info.
          seq (setCurrentDoc (Some info))
              (setStatus (current_document_status info))))
       (\<lambda>err. seq (setCurrentDoc None) (setStatus no_document_status))"

definition refreshChunks :: "unit action" where
  "refreshChunks =
     try_catch
       (bind (getCurrentChunks ()) (\<lambda>data. setChunks data))
       (\<lambda>err. seq (setChunks []) (setStatus no_chunks_status))"

text \<open>
  The drop listener of the storage area; its argument is \<open>e.dataTransfer\<close>, given by
  its \<open>files\<close> (\<open>None\<close> when the event has no \<open>dataTransfer\<close>).
\<close>

definition handleDrop :: "File list option \<Rightarrow> unit action" where
  "handleDrop dataTransfer =
     (case dataTransfer of
        None \<Rightarrow> Return ()
      | Some [] \<Rightarrow> Return ()
      | Some (file # _) \<Rightarrow>
          (let formData = append [] (ascii ''file'') (FileValue file) in
           seq (setStatus storage_uploading_status)
             (try_catch
                (seq (uploadToStorage formData)
                  (seq (setStatus storage_added_status) refreshStorage))
                (\<lambda>err. setStatus (error_status err)))))"

definition handleUploadAndIndex :: "app_state \<Rightarrow> unit action" where
  "handleUploadAndIndex s =
     (case uploadInputRef s of
        None \<Rightarrow> setStatus choose_file_status
      | Some input \<Rightarrow>
         (case files input of
            None \<Rightarrow> setStatus choose_file_status
          | Some [] \<Rightarrow> setStatus choose_file_status
          | Some (file # _) \<Rightarrow>
             (let formData = append [] (ascii ''file'') (FileValue file);
                  formData = append formData (ascii ''encoder_name'')
                               (StringValue (encoder_text (encoderName s)));
                  formData = append formData (ascii ''chunk_size'')
                               (StringValue (String (chunkSize s)));
                  formData = append formData (ascii ''chunk_overlap'')
                               (StringValue (String (chunkOverlap s)))
              in
              seq (setIsLoading True)
                (seq (setStatus indexing_status)
                  (try_finally
                    (try_catch
                       (bind (uploadAndIndexDocument formData) (\<lambda>resp.
                          seq (setCurrentDoc (Some resp))
                            (seq refreshChunks
                              (setStatus (current_document_status resp)))))
                       (\<lambda>err. setStatus (error_status err)))
                    (setIsLoading False))))))"

definition handleSearch :: "app_state \<Rightarrow> unit action" where
  "handleSearch s =
     (if trim (query s) = [] then setStatus enter_query_status
      else
        seq (setIsLoading True)
          (seq (setStatus searching_status)
            (try_finally
              (try_catch
                 (bind (searchInDocument (query s) (topK s)) (\<lambda>res.
                    seq (setSearchResults (results res))
                      (setStatus (found_status (length (results res))))))
                 (\<lambda>err. seq (setStatus (error_status err)) (setSearchResults [])))
              (setIsLoading False))))"

text \<open>
  The \<open>onchange\<close> listener that \<open>handleStorageUploadClick\<close> installs on the file input
  it creates; its argument is \<open>input.files\<close>.
\<close>

definition handleStorageUploadClick :: "File list option \<Rightarrow> unit action" where
  "handleStorageUploadClick input_files =
     (case input_files of
        None \<Rightarrow> Return ()
      | Some [] \<Rightarrow> Return ()
      | Some (file # _) \<Rightarrow>
          (let formData = append [] (ascii ''file'') (FileValue file) in
           seq (setStatus storage_uploading_status)
             (try_catch
                (seq (uploadToStorage formData)
                  (seq refreshStorage (setStatus storage_added_status)))
                (\<lambda>err. setStatus (error_status err)))))"

definition handleMakeCurrent :: "app_state \<Rightarrow> jsstring \<Rightarrow> unit action" where
  "handleMakeCurrent s fileName =
     seq (setIsLoading True)
       (seq (setStatus storage_loading_status)
         (try_finally
           (try_catch
              (bind (loadFromStorage
                       \<lparr>LoadParams.file_name = fileName,
                        LoadParams.encoder_name = encoder_text (encoderName s),
                        LoadParams.chunk_size = chunkSize s,
                        LoadParams.chunk_overlap = chunkOverlap s\<rparr>) (\<lambda>resp.
                 seq (setCurrentDoc (Some resp))
                   (seq refreshChunks
                     (setStatus (current_document_status resp)))))
              (\<lambda>err. setStatus (error_status err)))
           (setIsLoading False)))"

section \<open>Running a handler against a backend\<close>

text \<open>
  The backend decides what each \<open>fetch\<close> yields, from the requests sent before it and
  the request itself. \<open>run\<close> takes an asynchronous computation to its end, every
  awaited \<open>fetch\<close> settling before anything else happens; it gives the outcome of the
  computation, the component state and the requests sent.
\<close>

record backend =
  fetchDocument :: "request list \<Rightarrow> request \<Rightarrow> UploadResponse fetched"
  fetchChunks :: "request list \<Rightarrow> request \<Rightarrow> ChunkSummary list fetched"
  fetchSearch :: "request list \<Rightarrow> request \<Rightarrow> SearchResponse fetched"
  fetchStorageList :: "request list \<Rightarrow> request \<Rightarrow> StorageEntry list fetched"
  fetchStored :: "request list \<Rightarrow> request \<Rightarrow> StorageUploadResponse fetched"

primrec run ::
  "backend \<Rightarrow> ('s, 'a) async \<Rightarrow> 's \<Rightarrow> request list \<Rightarrow> (Error + 'a) \<times> 's \<times> request list"
where
  "run b (Return v) s sent = (Inr v, s, sent)"
| "run b (Throw e) s sent = (Inl e, s, sent)"
| "run b (SetState g t) s sent = run b t (g s) sent"
| "run b (FetchDocument r k) s sent = run b (k (fetchDocument b sent r)) s (sent @ [r])"
| "run b (FetchChunks r k) s sent = run b (k (fetchChunks b sent r)) s (sent @ [r])"
| "run b (FetchSearch r k) s sent = run b (k (fetchSearch b sent r)) s (sent @ [r])"
| "run b (FetchStorageList r k) s sent = run b (k (fetchStorageList b sent r)) s (sent @ [r])"
| "run b (FetchStored r k) s sent = run b (k (fetchStored b sent r)) s (sent @ [r])"

section \<open>The page: handlers in flight\<close>

text \<open>
  A handler runs until its first \<open>await\<close> and is resumed when the awaited \<open>fetch\<close>
  settles; in between, other handlers start and resume. A page is the component state,
  the requests sent so far, and the handlers waiting for a \<open>fetch\<close>, each parked at
  its \<open>Fetch\<close>.
\<close>

record page =
  view :: app_state
  requests :: "request list"
  pending :: "unit action list"

text \<open>Start or resume a handler: it runs up to its next \<open>await\<close>, or to its end.\<close>

primrec spawn :: "unit action \<Rightarrow> page \<Rightarrow> page" where
  "spawn (Return v) p = p"
| "spawn (Throw e) p = p"
| "spawn (SetState g t) p = spawn t (p\<lparr>view := g (view p)\<rparr>)"
| "spawn (FetchDocument r k) p =
     p\<lparr>requests := requests p @ [r], pending := pending p @ [FetchDocument r k]\<rparr>"
| "spawn (FetchChunks r k) p =
     p\<lparr>requests := requests p @ [r], pending := pending p @ [FetchChunks r k]\<rparr>"
| "spawn (FetchSearch r k) p =
     p\<lparr>requests := requests p @ [r], pending := pending p @ [FetchSearch r k]\<rparr>"
| "spawn (FetchStorageList r k) p =
     p\<lparr>requests := requests p @ [r], pending := pending p @ [FetchStorageList r k]\<rparr>"
| "spawn (FetchStored r k) p =
     p\<lparr>requests := requests p @ [r], pending := pending p @ [FetchStored r k]\<rparr>"

text \<open>What a \<open>fetch\<close> in flight settles to, by the shape its caller expects.\<close>

datatype outcome =
    DocumentOutcome "UploadResponse fetched"
  | ChunksOutcome "ChunkSummary list fetched"
  | SearchOutcome "SearchResponse fetched"
  | StorageListOutcome "StorageEntry list fetched"
  | StoredOutcome "StorageUploadResponse fetched"

fun resume :: "outcome \<Rightarrow> ('s, 'a) async \<Rightarrow> ('s, 'a) async option" where
  "resume (DocumentOutcome x) (FetchDocument r k) = Some (k x)"
| "resume (ChunksOutcome x) (FetchChunks r k) = Some (k x)"
| "resume (SearchOutcome x) (FetchSearch r k) = Some (k x)"
| "resume (StorageListOutcome x) (FetchStorageList r k) = Some (k x)"
| "resume (StoredOutcome x) (FetchStored r k) = Some (k x)"
| "resume _ _ = None"

text \<open>The \<open>i\<close>-th waiting handler's \<open>fetch\<close> settles to \<open>x\<close>; \<open>None\<close> if there is no such handler or it waits for another shape.\<close>

definition settle :: "nat \<Rightarrow> outcome \<Rightarrow> page \<Rightarrow> page option" where
  "settle i x p =
     (if i < length (pending p) then
        (case resume x (pending p ! i) of
           None \<Rightarrow> None
         | Some t \<Rightarrow> Some (spawn t (p\<lparr>pending := take i (pending p) @ drop (Suc i) (pending p)\<rparr>)))
      else None)"

text \<open>
  The state of the first render: the \<open>useState\<close> initial values, and the file input
  attached to \<open>uploadInputRef\<close> with no file chosen.
\<close>

definition initial_state :: app_state where
  "initial_state =
     \<lparr>encoderName = mini, chunkSize = 800, chunkOverlap = 200, currentDoc = None,
      chunks = [], storage = [], query = [], topK = 3, searchResults = [],
      status = no_document_status, isLoading = False,
      uploadInputRef = Some \<lparr>files = Some []\<rparr>\<rparr>"

definition initial_page :: page where
  "initial_page = \<lparr>view = initial_state, requests = [], pending = []\<rparr>"

text \<open>
  The first \<open>useEffect\<close>: \<open>refreshStorage()\<close> is started and not awaited, then
  \<open>refreshCurrentDocument().then(() => refreshChunks())\<close>.
\<close>

definition mount :: "page \<Rightarrow> page" where
  "mount p = spawn (seq refreshCurrentDocument refreshChunks) (spawn refreshStorage p)"

text \<open>What the user can do with the rendered page.\<close>

datatype event =
    SelectEncoder encoder
  | ClickRefreshStorage
  | ClickMakeCurrent jsstring
  | ClickStorageUpload "File list option"
  | DropOnStorage "File list option"
  | ChangeChunkSize int
  | ChangeChunkOverlap int
  | ChooseUploadFile "File list"
  | ClickUploadAndIndex
  | ClickRefreshChunks
  | ChangeQuery jsstring
  | ChangeTopK int
  | ClickSearch


fun handle :: "event \<Rightarrow> page \<Rightarrow> page" where
  "handle (SelectEncoder e) p = p\<lparr>view := (view p)\<lparr>encoderName := e\<rparr>\<rparr>"
| "handle ClickRefreshStorage p = spawn refreshStorage p"
| "handle (ClickMakeCurrent fileName) p = spawn (handleMakeCurrent (view p) fileName) p"
| "handle (ClickStorageUpload input_files) p = spawn (handleStorageUploadClick input_files) p"
| "handle (DropOnStorage dataTransfer) p = spawn (handleDrop dataTransfer) p"
| "handle (ChangeChunkSize n) p = p\<lparr>view := (view p)\<lparr>chunkSize := n\<rparr>\<rparr>"
| "handle (ChangeChunkOverlap n) p = p\<lparr>view := (view p)\<lparr>chunkOverlap := n\<rparr>\<rparr>"
| "handle (ChooseUploadFile fs) p =
     p\<lparr>view := (view p)\<lparr>uploadInputRef := Some \<lparr>files = Some fs\<rparr>\<rparr>\<rparr>"
| "handle ClickUploadAndIndex p = spawn (handleUploadAndIndex (view p)) p"
| "handle ClickRefreshChunks p = spawn refreshChunks p"
| "handle (ChangeQuery q) p = p\<lparr>view := (view p)\<lparr>query := q\<rparr>\<rparr>"
| "handle (ChangeTopK n) p = p\<lparr>view := (view p)\<lparr>topK := n\<rparr>\<rparr>"
| "handle ClickSearch p = spawn (handleSearch (view p)) p"


section \<open>Backends, states and pages to run the client on\<close>

text \<open>The rejection of a \<open>fetch\<close> that cannot reach the server.\<close>

definition failed_to_fetch :: Error where
  "failed_to_fetch = Error (ascii ''Failed to fetch'')"

definition offline :: backend where
  "offline =
     \<lparr>fetchDocument = (\<lambda>sent r. Inl failed_to_fetch),
      fetchChunks = (\<lambda>sent r. Inl failed_to_fetch),
      fetchSearch = (\<lambda>sent r. Inl failed_to_fetch),
      fetchStorageList = (\<lambda>sent r. Inl failed_to_fetch),
      fetchStored = (\<lambda>sent r. Inl failed_to_fetch)\<rparr>"

text \<open>A success response with body \<open>v\<close>, and a non-success response with body text \<open>t\<close>.\<close>

definition respond :: "'a \<Rightarrow> 'a fetched" where
  "respond v = Inr \<lparr>ok = True, text = Inr [], json = Inr v\<rparr>"

definition refuse :: "jsstring \<Rightarrow> 'a fetched" where
  "refuse t = Inr \<lparr>ok = False, text = Inr t, json = Inl (Error (ascii ''Unexpected token''))\<rparr>"

definition notes_file :: File where
  "notes_file = \<lparr>name = ascii ''notes.txt'', content = []\<rparr>"

definition notes_document :: UploadResponse where
  "notes_document =
     \<lparr>document_id = ascii ''d1'', UploadResponse.file_name = ascii ''notes.txt'',
      num_chars = 3000, num_chunks = 5, UploadResponse.encoder_name = ascii ''mini'',
      UploadResponse.chunk_size = 800, UploadResponse.chunk_overlap = 200\<rparr>"

definition notes_chunks :: "ChunkSummary list" where
  "notes_chunks =
     [\<lparr>ChunkSummary.chunk_id = 0, ChunkSummary.text = ascii ''first''\<rparr>,
      \<lparr>ChunkSummary.chunk_id = 1, ChunkSummary.text = ascii ''second''\<rparr>]"

definition hello_results :: "SearchResult list" where
  "hello_results =
     [\<lparr>SearchResult.chunk_id = 2, score = 91 / 100, SearchResult.text = ascii ''hello there''\<rparr>,
      \<lparr>SearchResult.chunk_id = 0, score = 1 / 2, SearchResult.text = ascii ''first''\<rparr>]"

definition notes_entry :: StorageEntry where
  "notes_entry =
     \<lparr>StorageEntry.file_name = ascii ''notes.txt'', StorageEntry.size_bytes = 3000,
      modified_at = ascii ''2024-01-01T00:00:00''\<rparr>"

definition notes_stored :: StorageUploadResponse where
  "notes_stored =
     \<lparr>StorageUploadResponse.file_name = ascii ''notes.txt'',
      StorageUploadResponse.size_bytes = 3000, stored = True\<rparr>"

definition serving :: backend where
  "serving =
     \<lparr>fetchDocument = (\<lambda>sent r. respond notes_document),
      fetchChunks = (\<lambda>sent r. respond notes_chunks),
      fetchSearch = (\<lambda>sent r. respond \<lparr>results = hello_results\<rparr>),
      fetchStorageList = (\<lambda>sent r. respond [notes_entry]),
      fetchStored = (\<lambda>sent r. respond notes_stored)\<rparr>"

definition serving_no_chunks :: backend where
  "serving_no_chunks = serving\<lparr>fetchChunks := (\<lambda>sent r. refuse (ascii ''No current document''))\<rparr>"

definition file_chosen :: app_state where
  "file_chosen = initial_state\<lparr>uploadInputRef := Some \<lparr>files = Some [notes_file]\<rparr>\<rparr>"

definition hello_typed :: app_state where
  "hello_typed = initial_state\<lparr>query := ascii ''hello''\<rparr>"

definition with_document :: app_state where
  "with_document = initial_state\<lparr>currentDoc := Some notes_document, chunks := notes_chunks\<rparr>"



section \<open>Laws of running\<close>

lemma run_bind:
  "run b (bind t f) s sent =
     (case run b t s sent of
        (Inl e, s', sent') \<Rightarrow> (Inl e, s', sent')
      | (Inr v, s', sent') \<Rightarrow> run b (f v) s' sent')"
  by (induction t arbitrary: s sent) auto

lemma run_seq:
  "run b (seq t u) s sent =
     (case run b t s sent of
        (Inl e, s', sent') \<Rightarrow> (Inl e, s', sent')
      | (Inr v, s', sent') \<Rightarrow> run b u s' sent')"
  by (simp add: seq_def run_bind)

lemma run_try_catch:
  "run b (try_catch t h) s sent =
     (case run b t s sent of
        (Inl e, s', sent') \<Rightarrow> run b (h e) s' sent'
      | (Inr v, s', sent') \<Rightarrow> (Inr v, s', sent'))"
  by (induction t arbitrary: s sent) auto

lemma run_try_finally:
  "run b (try_finally t fin) s sent =
     (case run b t s sent of
        (r, s', sent') \<Rightarrow>
          (case run b fin s' sent' of
             (Inl e, s'', sent'') \<Rightarrow> (Inl e, s'', sent'')
           | (Inr _, s'', sent'') \<Rightarrow> (r, s'', sent'')))"
  by (induction t arbitrary: s sent) (auto simp: run_bind split: prod.splits sum.splits)

lemmas run_control = run_bind run_seq run_try_catch run_try_finally

lemma handleResponse_not_ok:
  "\<not> ok r \<Longrightarrow> Response.text r = Inr t \<Longrightarrow>
     handleResponse r = Throw (Error (if t = [] then request_error_text else t))"
  by (simp add: handleResponse_def await_def or_else_def)

lemma handleResponse_ok:
  "ok r \<Longrightarrow> json r = Inr v \<Longrightarrow> handleResponse r = Return v"
  by (simp add: handleResponse_def await_def)

text \<open>What \<open>const res = await fetch(...); return handleResponse(res)\<close> comes to.\<close>

lemma run_received:
  "run b (bind (await x) handleResponse) s sent =
     (case x of
        Inl e \<Rightarrow> Inl e
      | Inr r \<Rightarrow>
          if ok r then json r
          else (case Response.text r of
                  Inl e \<Rightarrow> Inl e
                | Inr t \<Rightarrow> Inl (Error (or_else t request_error_text))),
      s, sent)"
  by (simp add: await_def handleResponse_def split: sum.splits)

text \<open>
  A client function does not touch the component state: run inside a handler, it
  settles and sends as it does on its own.
\<close>

lemma run_uploadAndIndexDocument:
  "run b (uploadAndIndexDocument fd) (s :: app_state) sent =
     (fst (run b (uploadAndIndexDocument fd) () sent), s,
      snd (snd (run b (uploadAndIndexDocument fd) () sent)))"
  by (simp add: uploadAndIndexDocument_def run_received)

lemma run_getCurrentDocument:
  "run b (getCurrentDocument ()) (s :: app_state) sent =
     (fst (run b (getCurrentDocument ()) () sent), s,
      snd (snd (run b (getCurrentDocument ()) () sent)))"
  by (simp add: getCurrentDocument_def run_received)

lemma run_getCurrentChunks:
  "run b (getCurrentChunks ()) (s :: app_state) sent =
     (fst (run b (getCurrentChunks ()) () sent), s,
      snd (snd (run b (getCurrentChunks ()) () sent)))"
  by (simp add: getCurrentChunks_def run_received)

lemma run_searchInDocument:
  "run b (searchInDocument q k) (s :: app_state) sent =
     (fst (run b (searchInDocument q k) () sent), s,
      snd (snd (run b (searchInDocument q k) () sent)))"
  by (simp add: searchInDocument_def run_received)

lemma run_listStorageDocuments:
  "run b (listStorageDocuments ()) (s :: app_state) sent =
     (fst (run b (listStorageDocuments ()) () sent), s,
      snd (snd (run b (listStorageDocuments ()) () sent)))"
  by (simp add: listStorageDocuments_def run_received)

lemma run_uploadToStorage:
  "run b (uploadToStorage fd) (s :: app_state) sent =
     (fst (run b (uploadToStorage fd) () sent), s,
      snd (snd (run b (uploadToStorage fd) () sent)))"
  by (simp add: uploadToStorage_def run_received)

lemma run_loadFromStorage:
  "run b (loadFromStorage params) (s :: app_state) sent =
     (fst (run b (loadFromStorage params) () sent), s,
      snd (snd (run b (loadFromStorage params) () sent)))"
  by (simp add: loadFromStorage_def run_received)

lemmas run_api = run_uploadAndIndexDocument run_getCurrentDocument run_getCurrentChunks
  run_searchInDocument run_listStorageDocuments run_uploadToStorage run_loadFromStorage

lemmas setters = setCurrentDoc_def setChunks_def setStorage_def setSearchResults_def
  setStatus_def setIsLoading_def

lemmas client_defs = uploadAndIndexDocument_def getCurrentDocument_def getCurrentChunks_def
  searchInDocument_def listStorageDocuments_def uploadToStorage_def loadFromStorage_def

lemmas handler_defs = refreshStorage_def refreshCurrentDocument_def refreshChunks_def
  handleDrop_def handleUploadAndIndex_def handleSearch_def handleStorageUploadClick_def
  handleMakeCurrent_def

lemmas example_defs = failed_to_fetch_def offline_def respond_def refuse_def serving_def
  serving_no_chunks_def file_chosen_def hello_typed_def with_document_def initial_state_def

lemma trim_blank:
  assumes "list_all isWhiteSpace q"
  shows "trim q = []"
proof -
  from assms have blank: "dropWhile isWhiteSpace q = []"
    unfolding dropWhile_eq_Nil_conv list_all_iff .
  show ?thesis
    unfolding trim_def blank by simp
qed

lemma ascii_nonempty: "ascii (c # cs) \<noteq> []"
  by (simp add: ascii_def)

text \<open>The decimal rendering tells numbers apart.\<close>

lemma digits_nonempty: "digits n \<noteq> []"
  by (subst digits.simps) simp

lemma digit_inj:
  assumes "a < 10" "b < 10"
    and "(word_of_nat (48 + a) :: 16 word) = word_of_nat (48 + b)"
  shows "a = b"
proof -
  have unat_digit: "unat (word_of_nat (48 + d) :: 16 word) = 48 + d" if "d < 10" for d
  proof -
    have "unat (word_of_nat (48 + d) :: 16 word) = (48 + d) mod 2 ^ LENGTH(16)"
      by (rule unat_of_nat)
    also from that have "\<dots> = 48 + d"
      by simp
    finally show ?thesis .
  qed
  from assms(3) have "unat (word_of_nat (48 + a) :: 16 word) = unat (word_of_nat (48 + b) :: 16 word)"
    by (rule arg_cong)
  with assms(1,2) have "48 + a = 48 + b"
    by (simp only: unat_digit)
  then show ?thesis
    by simp
qed

lemma digits_inj: "digits m = digits n \<Longrightarrow> m = n"
proof (induction m arbitrary: n rule: digits.induct)
  case (1 m)
  show ?case
  proof (cases "m < 10")
    case small: True
    show ?thesis
    proof (cases "n < 10")
      case True
      with small "1.prems" show ?thesis
        by (auto simp: digits.simps [of m] digits.simps [of n] dest: digit_inj)
    next
      case False
      with small "1.prems" digits_nonempty [of "n div 10"] show ?thesis
        by (simp add: digits.simps [of m] digits.simps [of n])
    qed
  next
    case large: False
    show ?thesis
    proof (cases "n < 10")
      case True
      with large "1.prems" digits_nonempty [of "m div 10"] show ?thesis
        by (simp add: digits.simps [of m] digits.simps [of n])
    next
      case False
      with large "1.prems" have tens: "digits (m div 10) = digits (n div 10)"
        and units: "(word_of_nat (48 + m mod 10) :: 16 word) = word_of_nat (48 + n mod 10)"
        by (simp_all add: digits.simps [of m] digits.simps [of n])
      from "1.IH" [OF large tens] have "m div 10 = n div 10" .
      moreover from units have "m mod 10 = n mod 10"
        by (rule digit_inj [rotated 2]) simp_all
      ultimately show ?thesis
        by (metis div_mult_mod_eq)
    qed
  qed
qed

lemma found_status_inj: "found_status m = found_status n \<Longrightarrow> m = n"
  by (auto simp: found_status_def String_def dest: digits_inj)

text \<open>The whole effect of the two handlers that replace the current document.\<close>

lemma run_handleUploadAndIndex:
  assumes "uploadInputRef s = Some input" and "files input = Some (file # others)"
    and "run b (uploadAndIndexDocument
           [(ascii ''file'', FileValue file),
            (ascii ''encoder_name'', StringValue (encoder_text (encoderName s))),
            (ascii ''chunk_size'', StringValue (String (chunkSize s))),
            (ascii ''chunk_overlap'', StringValue (String (chunkOverlap s)))]) () sent
         = (Inr resp, (), sent')"
  shows "run b (handleUploadAndIndex s) s0 sent =
           (Inr (),
            s0\<lparr>isLoading := False, currentDoc := Some resp,
               chunks := (case fst (run b (getCurrentChunks ()) () sent') of
                            Inl e \<Rightarrow> [] | Inr data \<Rightarrow> data),
               status := current_document_status resp\<rparr>,
            snd (snd (run b (getCurrentChunks ()) () sent')))"
  using assms
  by (simp add: handleUploadAndIndex_def refreshChunks_def append_def run_control run_api setters
      split: sum.splits)

lemma run_handleMakeCurrent:
  assumes "run b (loadFromStorage
           \<lparr>LoadParams.file_name = fileName,
            LoadParams.encoder_name = encoder_text (encoderName s),
            LoadParams.chunk_size = chunkSize s,
            LoadParams.chunk_overlap = chunkOverlap s\<rparr>) () sent
         = (Inr resp, (), sent')"
  shows "run b (handleMakeCurrent s fileName) s0 sent =
           (Inr (),
            s0\<lparr>isLoading := False, currentDoc := Some resp,
               chunks := (case fst (run b (getCurrentChunks ()) () sent') of
                            Inl e \<Rightarrow> [] | Inr data \<Rightarrow> data),
               status := current_document_status resp\<rparr>,
            snd (snd (run b (getCurrentChunks ()) () sent')))"
  using assms
  by (simp add: handleMakeCurrent_def refreshChunks_def run_control run_api setters
      split: sum.splits)

lemma run_refreshChunks:
  "run b refreshChunks s0 sent =
     (Inr (),
      (case fst (run b (getCurrentChunks ()) () sent) of
         Inl e \<Rightarrow> s0\<lparr>chunks := [], status := no_chunks_status\<rparr>
       | Inr data \<Rightarrow> s0\<lparr>chunks := data\<rparr>),
      snd (snd (run b (getCurrentChunks ()) () sent)))"
  by (simp add: refreshChunks_def run_control run_api setters split: sum.splits)

lemma try_finally_resets:
  "isLoading (fst (snd (run b (try_finally t (setIsLoading False)) s0 sent))) = False"
  by (simp add: run_try_finally setIsLoading_def split: prod.splits)

lemmas page_defs = mount_def refreshStorage_def refreshCurrentDocument_def refreshChunks_def
  listStorageDocuments_def getCurrentDocument_def getCurrentChunks_def seq_def settle_def

section \<open>The response-handling rule of the client functions\<close>

text \<open>
  C1. Whichever client function made the request (\<open>uploadAndIndexDocument\<close>,
  \<open>getCurrentDocument\<close>, \<open>loadFromStorage\<close>, \<open>getCurrentChunks\<close>, \<open>searchInDocument\<close>,
  \<open>listStorageDocuments\<close>, \<open>uploadToStorage\<close>): when its \<open>fetch\<close> yields a response
  that is not \<open>ok\<close> and whose body text is \<open>t\<close>, the function throws an error whose
  message is \<open>t\<close> if \<open>t\<close> is not empty and the fixed text of \<open>handleResponse\<close> otherwise;
  when the response is \<open>ok\<close> and its body parses to \<open>v\<close>, the function returns \<open>v\<close>.
\<close>

theorem api_response_rule:
  "(\<not> ok rD \<and> Response.text rD = Inr tD \<longrightarrow>
      resume (DocumentOutcome (Inr rD)) (uploadAndIndexDocument formData :: ('s, UploadResponse) async) =
        Some (Throw (Error (if tD = [] then request_error_text else tD)))
    \<and> resume (DocumentOutcome (Inr rD)) (getCurrentDocument () :: ('s, UploadResponse) async) =
        Some (Throw (Error (if tD = [] then request_error_text else tD)))
    \<and> resume (DocumentOutcome (Inr rD)) (loadFromStorage params :: ('s, UploadResponse) async) =
        Some (Throw (Error (if tD = [] then request_error_text else tD))))
   \<and> (ok rD \<and> json rD = Inr vD \<longrightarrow>
      resume (DocumentOutcome (Inr rD)) (uploadAndIndexDocument formData :: ('s, UploadResponse) async) = Some (Return vD)
    \<and> resume (DocumentOutcome (Inr rD)) (getCurrentDocument () :: ('s, UploadResponse) async) = Some (Return vD)
    \<and> resume (DocumentOutcome (Inr rD)) (loadFromStorage params :: ('s, UploadResponse) async) = Some (Return vD))
   \<and> (\<not> ok rC \<and> Response.text rC = Inr tC \<longrightarrow>
      resume (ChunksOutcome (Inr rC)) (getCurrentChunks () :: ('s, ChunkSummary list) async) =
        Some (Throw (Error (if tC = [] then request_error_text else tC))))
   \<and> (ok rC \<and> json rC = Inr vC \<longrightarrow>
      resume (ChunksOutcome (Inr rC)) (getCurrentChunks () :: ('s, ChunkSummary list) async) = Some (Return vC))
   \<and> (\<not> ok rS \<and> Response.text rS = Inr tS \<longrightarrow>
      resume (SearchOutcome (Inr rS)) (searchInDocument q k :: ('s, SearchResponse) async) =
        Some (Throw (Error (if tS = [] then request_error_text else tS))))
   \<and> (ok rS \<and> json rS = Inr vS \<longrightarrow>
      resume (SearchOutcome (Inr rS)) (searchInDocument q k :: ('s, SearchResponse) async) = Some (Return vS))
   \<and> (\<not> ok rL \<and> Response.text rL = Inr tL \<longrightarrow>
      resume (StorageListOutcome (Inr rL)) (listStorageDocuments () :: ('s, StorageEntry list) async) =
        Some (Throw (Error (if tL = [] then request_error_text else tL))))
   \<and> (ok rL \<and> json rL = Inr vL \<longrightarrow>
      resume (StorageListOutcome (Inr rL)) (listStorageDocuments () :: ('s, StorageEntry list) async) = Some (Return vL))
   \<and> (\<not> ok rU \<and> Response.text rU = Inr tU \<longrightarrow>
      resume (StoredOutcome (Inr rU)) (uploadToStorage formData' :: ('s, StorageUploadResponse) async) =
        Some (Throw (Error (if tU = [] then request_error_text else tU))))
   \<and> (ok rU \<and> json rU = Inr vU \<longrightarrow>
      resume (StoredOutcome (Inr rU)) (uploadToStorage formData' :: ('s, StorageUploadResponse) async) = Some (Return vU))"
  by (simp add: uploadAndIndexDocument_def getCurrentDocument_def loadFromStorage_def
      getCurrentChunks_def searchInDocument_def listStorageDocuments_def uploadToStorage_def
      await_def handleResponse_not_ok handleResponse_ok)

theorem api_response_rule_witness:
  "resume (DocumentOutcome (Inr \<lparr>ok = False, text = Inr [], json = Inl (Error [])\<rparr>))
     (uploadAndIndexDocument [] :: (unit, UploadResponse) async) =
     Some (Throw (Error request_error_text))
   \<and> resume (ChunksOutcome
         (Inr \<lparr>ok = False, text = Inr (ascii ''No document''), json = Inl (Error [])\<rparr>))
       (getCurrentChunks () :: (unit, ChunkSummary list) async) =
     Some (Throw (Error (ascii ''No document'')))
   \<and> resume (SearchOutcome (Inr \<lparr>ok = False, text = Inr [], json = Inl (Error [])\<rparr>))
       (searchInDocument (ascii ''hello'') 3 :: (unit, SearchResponse) async) =
     Some (Throw (Error request_error_text))
   \<and> resume (StorageListOutcome (Inr \<lparr>ok = False, text = Inr [], json = Inl (Error [])\<rparr>))
       (listStorageDocuments () :: (unit, StorageEntry list) async) =
     Some (Throw (Error request_error_text))
   \<and> resume (StoredOutcome (Inr \<lparr>ok = False, text = Inr [], json = Inl (Error [])\<rparr>))
       (uploadToStorage [] :: (unit, StorageUploadResponse) async) =
     Some (Throw (Error request_error_text))
   \<and> resume (DocumentOutcome
         (Inr \<lparr>ok = True, text = Inr [],
               json = Inr \<lparr>document_id = [], UploadResponse.file_name = ascii ''notes.txt'',
                           num_chars = 9, num_chunks = 5, UploadResponse.encoder_name = ascii ''mini'',
                           UploadResponse.chunk_size = 800, UploadResponse.chunk_overlap = 200\<rparr>\<rparr>))
       (getCurrentDocument () :: (unit, UploadResponse) async) =
     Some (Return \<lparr>document_id = [], UploadResponse.file_name = ascii ''notes.txt'',
                   num_chars = 9, num_chunks = 5, UploadResponse.encoder_name = ascii ''mini'',
                   UploadResponse.chunk_size = 800, UploadResponse.chunk_overlap = 200\<rparr>)
   \<and> resume (ChunksOutcome (Inr \<lparr>ok = True, text = Inr [], json = Inr []\<rparr>))
       (getCurrentChunks () :: (unit, ChunkSummary list) async) = Some (Return [])
   \<and> resume (SearchOutcome (Inr \<lparr>ok = True, text = Inr [], json = Inr \<lparr>results = []\<rparr>\<rparr>))
       (searchInDocument (ascii ''hello'') 3 :: (unit, SearchResponse) async) =
     Some (Return \<lparr>results = []\<rparr>)
   \<and> resume (StorageListOutcome (Inr \<lparr>ok = True, text = Inr [], json = Inr []\<rparr>))
       (listStorageDocuments () :: (unit, StorageEntry list) async) = Some (Return [])
   \<and> resume (StoredOutcome
         (Inr \<lparr>ok = True, text = Inr [],
               json = Inr \<lparr>StorageUploadResponse.file_name = ascii ''notes.txt'',
                           StorageUploadResponse.size_bytes = 9, stored = True\<rparr>\<rparr>))
       (uploadToStorage [] :: (unit, StorageUploadResponse) async) =
     Some (Return \<lparr>StorageUploadResponse.file_name = ascii ''notes.txt'',
                           StorageUploadResponse.size_bytes = 9, stored = True\<rparr>)"
proof -
  let ?doc = "\<lparr>document_id = [], UploadResponse.file_name = ascii ''notes.txt'',
               num_chars = 9, num_chunks = 5, UploadResponse.encoder_name = ascii ''mini'',
               UploadResponse.chunk_size = 800, UploadResponse.chunk_overlap = 200\<rparr>"
  let ?stored = "\<lparr>StorageUploadResponse.file_name = ascii ''notes.txt'',
                           StorageUploadResponse.size_bytes = 9, stored = True\<rparr>"
  let ?fD = "\<lparr>ok = False, text = Inr [], json = Inl (Error []) :: Error + UploadResponse\<rparr>"
  let ?fC = "\<lparr>ok = False, text = Inr (ascii ''No document''),
              json = Inl (Error []) :: Error + ChunkSummary list\<rparr>"
  let ?fS = "\<lparr>ok = False, text = Inr [], json = Inl (Error []) :: Error + SearchResponse\<rparr>"
  let ?fL = "\<lparr>ok = False, text = Inr [], json = Inl (Error []) :: Error + StorageEntry list\<rparr>"
  let ?fU = "\<lparr>ok = False, text = Inr [],
              json = Inl (Error []) :: Error + StorageUploadResponse\<rparr>"
  let ?sD = "\<lparr>ok = True, text = Inr [], json = Inr ?doc\<rparr>"
  let ?sC = "\<lparr>ok = True, text = Inr [], json = Inr [] :: Error + ChunkSummary list\<rparr>"
  let ?sS = "\<lparr>ok = True, text = Inr [], json = Inr \<lparr>results = []\<rparr>\<rparr>"
  let ?sL = "\<lparr>ok = True, text = Inr [], json = Inr [] :: Error + StorageEntry list\<rparr>"
  let ?sU = "\<lparr>ok = True, text = Inr [], json = Inr ?stored\<rparr>"
  have failing:
    "\<not> ok ?fD \<and> Response.text ?fD = Inr []"
    "\<not> ok ?fC \<and> Response.text ?fC = Inr (ascii ''No document'')"
    "\<not> ok ?fS \<and> Response.text ?fS = Inr []"
    "\<not> ok ?fL \<and> Response.text ?fL = Inr []"
    "\<not> ok ?fU \<and> Response.text ?fU = Inr []"
    by simp_all
  have succeeding:
    "ok ?sD \<and> json ?sD = Inr ?doc"
    "ok ?sC \<and> json ?sC = Inr []"
    "ok ?sS \<and> json ?sS = Inr \<lparr>results = []\<rparr>"
    "ok ?sL \<and> json ?sL = Inr []"
    "ok ?sU \<and> json ?sU = Inr ?stored"
    by simp_all
  have nonempty: "ascii ''No document'' \<noteq> []"
    by (simp add: ascii_def)
  from failing nonempty
    api_response_rule [where 's = unit and rD = ?fD and tD = "[]" and formData = "[]"
      and rC = ?fC and tC = "ascii ''No document''" and rS = ?fS and tS = "[]"
      and q = "ascii ''hello''" and k = 3 and rL = ?fL and tL = "[]"
      and rU = ?fU and tU = "[]" and formData' = "[]"]
  have fails:
    "resume (DocumentOutcome (Inr ?fD))
       (uploadAndIndexDocument [] :: (unit, UploadResponse) async) =
       Some (Throw (Error request_error_text))"
    "resume (ChunksOutcome (Inr ?fC)) (getCurrentChunks () :: (unit, ChunkSummary list) async) =
       Some (Throw (Error (ascii ''No document'')))"
    "resume (SearchOutcome (Inr ?fS))
       (searchInDocument (ascii ''hello'') 3 :: (unit, SearchResponse) async) =
       Some (Throw (Error request_error_text))"
    "resume (StorageListOutcome (Inr ?fL))
       (listStorageDocuments () :: (unit, StorageEntry list) async) =
       Some (Throw (Error request_error_text))"
    "resume (StoredOutcome (Inr ?fU))
       (uploadToStorage [] :: (unit, StorageUploadResponse) async) =
       Some (Throw (Error request_error_text))"
    by simp_all
  from succeeding
    api_response_rule [where 's = unit and rD = ?sD and vD = ?doc
      and rC = ?sC and vC = "[]" and rS = ?sS and vS = "\<lparr>results = []\<rparr>"
      and q = "ascii ''hello''" and k = 3 and rL = ?sL and vL = "[]"
      and rU = ?sU and vU = ?stored and formData' = "[]"]
  have succeeds:
    "resume (DocumentOutcome (Inr ?sD)) (getCurrentDocument () :: (unit, UploadResponse) async) =
       Some (Return ?doc)"
    "resume (ChunksOutcome (Inr ?sC)) (getCurrentChunks () :: (unit, ChunkSummary list) async) =
       Some (Return [])"
    "resume (SearchOutcome (Inr ?sS))
       (searchInDocument (ascii ''hello'') 3 :: (unit, SearchResponse) async) =
       Some (Return \<lparr>results = []\<rparr>)"
    "resume (StorageListOutcome (Inr ?sL))
       (listStorageDocuments () :: (unit, StorageEntry list) async) = Some (Return [])"
    "resume (StoredOutcome (Inr ?sU))
       (uploadToStorage [] :: (unit, StorageUploadResponse) async) = Some (Return ?stored)"
    by simp_all
  from fails succeeds show ?thesis by simp
qed

section \<open>Upload and index\<close>

text \<open>
  C2. When the upload-and-index call of \<open>handleUploadAndIndex\<close> succeeds with the
  descriptor \<open>resp\<close>, the handler ends with \<open>resp\<close> as the current document, whatever
  the current document was before; after the upload it sends exactly what a
  \<open>getCurrentChunks\<close> call sends, and the chunk list becomes the chunks that call
  returns.
\<close>

theorem upload_and_index_success:
  assumes "uploadInputRef s = Some input" and "files input = Some (file # others)"
    and "run b (uploadAndIndexDocument
           [(ascii ''file'', FileValue file),
            (ascii ''encoder_name'', StringValue (encoder_text (encoderName s))),
            (ascii ''chunk_size'', StringValue (String (chunkSize s))),
            (ascii ''chunk_overlap'', StringValue (String (chunkOverlap s)))]) () sent
         = (Inr resp, (), sent')"
  shows "currentDoc (fst (snd (run b (handleUploadAndIndex s) s0 sent))) = Some resp
     \<and> snd (snd (run b (handleUploadAndIndex s) s0 sent)) =
         snd (snd (run b (getCurrentChunks ()) () sent'))
     \<and> (\<forall>data. fst (run b (getCurrentChunks ()) () sent') = Inr data \<longrightarrow>
          chunks (fst (snd (run b (handleUploadAndIndex s) s0 sent))) = data)"
  by (simp add: run_handleUploadAndIndex [OF assms])

theorem upload_and_index_success_witness:
  "uploadInputRef file_chosen = Some \<lparr>files = Some [notes_file]\<rparr>
   \<and> currentDoc with_document = Some notes_document
   \<and> fst (run (serving\<lparr>fetchDocument := (\<lambda>sent r. respond (notes_document\<lparr>num_chunks := 2\<rparr>))\<rparr>)
        (uploadAndIndexDocument
           [(ascii ''file'', FileValue notes_file),
            (ascii ''encoder_name'', StringValue (ascii ''mini'')),
            (ascii ''chunk_size'', StringValue (ascii ''800'')),
            (ascii ''chunk_overlap'', StringValue (ascii ''200''))]) () []) =
       Inr (notes_document\<lparr>num_chunks := 2\<rparr>)
   \<and> currentDoc (fst (snd (run (serving\<lparr>fetchDocument :=
          (\<lambda>sent r. respond (notes_document\<lparr>num_chunks := 2\<rparr>))\<rparr>)
        (handleUploadAndIndex file_chosen) with_document []))) =
       Some (notes_document\<lparr>num_chunks := 2\<rparr>)
   \<and> chunks (fst (snd (run (serving\<lparr>fetchDocument :=
          (\<lambda>sent r. respond (notes_document\<lparr>num_chunks := 2\<rparr>))\<rparr>)
        (handleUploadAndIndex file_chosen) with_document []))) = notes_chunks
   \<and> map url (snd (snd (run (serving\<lparr>fetchDocument :=
          (\<lambda>sent r. respond (notes_document\<lparr>num_chunks := 2\<rparr>))\<rparr>)
        (handleUploadAndIndex file_chosen) with_document []))) =
       [API_BASE @ ascii ''/api/upload'', API_BASE @ ascii ''/api/document/current/chunks'']"
proof -
  let ?b = "serving\<lparr>fetchDocument := (\<lambda>sent r. respond (notes_document\<lparr>num_chunks := 2\<rparr>))\<rparr>"
  let ?form = "[(ascii ''file'', FileValue notes_file),
            (ascii ''encoder_name'', StringValue (encoder_text (encoderName file_chosen))),
            (ascii ''chunk_size'', StringValue (String (chunkSize file_chosen))),
            (ascii ''chunk_overlap'', StringValue (String (chunkOverlap file_chosen)))]"
  let ?upload = "\<lparr>url = API_BASE @ ascii ''/api/upload'', method = POST, headers = [],
                  body = Some (Multipart ?form)\<rparr>"
  have form: "?form =
    [(ascii ''file'', FileValue notes_file),
     (ascii ''encoder_name'', StringValue (ascii ''mini'')),
     (ascii ''chunk_size'', StringValue (ascii ''800'')),
     (ascii ''chunk_overlap'', StringValue (ascii ''200''))]"
    by (simp add: example_defs encoder_text_def String_def digits.simps ascii_def)
  have input: "uploadInputRef file_chosen = Some \<lparr>files = Some [notes_file]\<rparr>"
    by (simp add: example_defs)
  have chosen: "files \<lparr>files = Some [notes_file]\<rparr> = Some (notes_file # [])"
    by simp
  have before: "currentDoc with_document = Some notes_document"
    by (simp add: example_defs)
  have uploaded: "run ?b (uploadAndIndexDocument ?form) () [] =
      (Inr (notes_document\<lparr>num_chunks := 2\<rparr>), (), [?upload])"
    by (simp add: uploadAndIndexDocument_def run_received example_defs)
  have refreshed: "run ?b (getCurrentChunks ()) () [?upload] =
      (Inr notes_chunks, (), [?upload,
        \<lparr>url = API_BASE @ ascii ''/api/document/current/chunks'', method = GET, headers = [],
         body = None\<rparr>])"
    by (simp add: getCurrentChunks_def run_received example_defs)
  from upload_and_index_success [OF input chosen uploaded, of with_document]
    input before uploaded refreshed form
  show ?thesis by simp
qed

section \<open>What a failed request leaves behind\<close>

text \<open>
  C3, as stated, fails: the claim lets search alone change more than the status
  message when its request fails. With the server unreachable, the chunk refresh
  (the "refresh chunks" button, also run on mount) empties a chunk list that was not
  empty, and the current-document refresh (run on mount) clears a current document
  that was held.
\<close>

theorem failed_refresh_clears_state:
  "fst (run offline (getCurrentChunks ()) () []) = Inl failed_to_fetch
   \<and> chunks (fst (snd (run offline refreshChunks with_document []))) \<noteq> chunks with_document
   \<and> fst (run offline (getCurrentDocument ()) () []) = Inl failed_to_fetch
   \<and> currentDoc (fst (snd (run offline refreshCurrentDocument with_document [])))
       \<noteq> currentDoc with_document"
proof -
  have no_chunks: "fst (run offline (getCurrentChunks ()) () []) = Inl failed_to_fetch"
    by (simp add: getCurrentChunks_def run_received offline_def)
  have no_document: "fst (run offline (getCurrentDocument ()) () []) = Inl failed_to_fetch"
    by (simp add: getCurrentDocument_def run_received offline_def)
  have emptied: "chunks (fst (snd (run offline refreshChunks with_document []))) = []"
    by (simp add: run_refreshChunks no_chunks)
  have cleared: "currentDoc (fst (snd (run offline refreshCurrentDocument with_document []))) = None"
    by (simp add: refreshCurrentDocument_def run_control run_api setters no_document)
  have held: "chunks with_document = notes_chunks" "notes_chunks \<noteq> []"
    "currentDoc with_document = Some notes_document"
    by (simp_all add: with_document_def notes_chunks_def)
  from no_chunks no_document emptied cleared held show ?thesis
    by simp
qed

text \<open>
  C3, amended. When the first request of an action fails with the error \<open>e\<close>, the
  handler leaves the component state \<open>s0\<close> it runs on as it was, but for the status
  message and the following: the storage refresh, the storage upload (by drop or by
  file choice), upload-and-index and make-current set the status to the error text
  and nothing else (the latter two ending with the busy flag off); search also
  empties the search results; the current-document refresh clears the current
  document, with the no-document status; the chunk refresh empties the chunk list,
  with the no-chunks status.
\<close>

theorem failed_request_frame:
  "(fst (run b (listStorageDocuments ()) () sent) = Inl e \<longrightarrow>
      fst (snd (run b refreshStorage s0 sent)) = s0\<lparr>status := error_status e\<rparr>)
   \<and> (fst (run b (uploadToStorage [(ascii ''file'', FileValue file)]) () sent) = Inl e \<longrightarrow>
      fst (snd (run b (handleDrop (Some (file # others))) s0 sent)) =
        s0\<lparr>status := error_status e\<rparr>
      \<and> fst (snd (run b (handleStorageUploadClick (Some (file # others))) s0 sent)) =
        s0\<lparr>status := error_status e\<rparr>)
   \<and> (uploadInputRef s = Some input \<and> files input = Some (file # others)
      \<and> fst (run b (uploadAndIndexDocument
           [(ascii ''file'', FileValue file),
            (ascii ''encoder_name'', StringValue (encoder_text (encoderName s))),
            (ascii ''chunk_size'', StringValue (String (chunkSize s))),
            (ascii ''chunk_overlap'', StringValue (String (chunkOverlap s)))]) () sent) = Inl e \<longrightarrow>
      fst (snd (run b (handleUploadAndIndex s) s0 sent)) =
        s0\<lparr>isLoading := False, status := error_status e\<rparr>)
   \<and> (fst (run b (loadFromStorage
           \<lparr>LoadParams.file_name = fileName,
            LoadParams.encoder_name = encoder_text (encoderName s),
            LoadParams.chunk_size = chunkSize s,
            LoadParams.chunk_overlap = chunkOverlap s\<rparr>) () sent) = Inl e \<longrightarrow>
      fst (snd (run b (handleMakeCurrent s fileName) s0 sent)) =
        s0\<lparr>isLoading := False, status := error_status e\<rparr>)
   \<and> (trim (query s) \<noteq> []
      \<and> fst (run b (searchInDocument (query s) (topK s)) () sent) = Inl e \<longrightarrow>
      fst (snd (run b (handleSearch s) s0 sent)) =
        s0\<lparr>isLoading := False, status := error_status e, searchResults := []\<rparr>)
   \<and> (fst (run b (getCurrentDocument ()) () sent) = Inl e \<longrightarrow>
      fst (snd (run b refreshCurrentDocument s0 sent)) =
        s0\<lparr>currentDoc := None, status := no_document_status\<rparr>)
   \<and> (fst (run b (getCurrentChunks ()) () sent) = Inl e \<longrightarrow>
      fst (snd (run b refreshChunks s0 sent)) =
        s0\<lparr>chunks := [], status := no_chunks_status\<rparr>)"
  by (simp add: refreshStorage_def handleDrop_def handleStorageUploadClick_def
      handleUploadAndIndex_def handleMakeCurrent_def handleSearch_def
      refreshCurrentDocument_def refreshChunks_def append_def
      run_control run_api setters)

theorem failed_request_frame_witness:
  "fst (snd (run offline refreshStorage with_document [])) =
     with_document\<lparr>status := error_status failed_to_fetch\<rparr>
   \<and> fst (snd (run offline (handleDrop (Some [notes_file])) with_document [])) =
     with_document\<lparr>status := error_status failed_to_fetch\<rparr>
   \<and> fst (snd (run offline (handleStorageUploadClick (Some [notes_file])) with_document [])) =
     with_document\<lparr>status := error_status failed_to_fetch\<rparr>
   \<and> fst (snd (run offline (handleUploadAndIndex file_chosen) with_document [])) =
     with_document\<lparr>isLoading := False, status := error_status failed_to_fetch\<rparr>
   \<and> fst (snd (run offline (handleMakeCurrent file_chosen (ascii ''notes.txt'')) with_document [])) =
     with_document\<lparr>isLoading := False, status := error_status failed_to_fetch\<rparr>
   \<and> fst (snd (run offline (handleSearch hello_typed) with_document [])) =
     with_document\<lparr>isLoading := False, status := error_status failed_to_fetch,
                    searchResults := []\<rparr>
   \<and> fst (snd (run offline refreshCurrentDocument with_document [])) =
     with_document\<lparr>currentDoc := None, status := no_document_status\<rparr>
   \<and> fst (snd (run offline refreshChunks with_document [])) =
     with_document\<lparr>chunks := [], status := no_chunks_status\<rparr>"
proof -
  have input: "uploadInputRef file_chosen = Some \<lparr>files = Some [notes_file]\<rparr>
      \<and> files \<lparr>files = Some [notes_file]\<rparr> = Some (notes_file # [])"
    by (simp add: example_defs)
  have typed: "trim (query hello_typed) \<noteq> []"
    by (simp add: example_defs trim_def ascii_def isWhiteSpace_def)
  have failing:
    "fst (run offline (listStorageDocuments ()) () []) = Inl failed_to_fetch"
    "fst (run offline (uploadToStorage [(ascii ''file'', FileValue notes_file)]) () []) =
       Inl failed_to_fetch"
    "fst (run offline (uploadAndIndexDocument
           [(ascii ''file'', FileValue notes_file),
            (ascii ''encoder_name'', StringValue (encoder_text (encoderName file_chosen))),
            (ascii ''chunk_size'', StringValue (String (chunkSize file_chosen))),
            (ascii ''chunk_overlap'', StringValue (String (chunkOverlap file_chosen)))]) () []) =
       Inl failed_to_fetch"
    "fst (run offline (loadFromStorage
           \<lparr>LoadParams.file_name = ascii ''notes.txt'',
            LoadParams.encoder_name = encoder_text (encoderName file_chosen),
            LoadParams.chunk_size = chunkSize file_chosen,
            LoadParams.chunk_overlap = chunkOverlap file_chosen\<rparr>) () []) = Inl failed_to_fetch"
    "fst (run offline (searchInDocument (query hello_typed) (topK hello_typed)) () []) =
       Inl failed_to_fetch"
    "fst (run offline (getCurrentDocument ()) () []) = Inl failed_to_fetch"
    "fst (run offline (getCurrentChunks ()) () []) = Inl failed_to_fetch"
    by (simp_all add: client_defs run_received offline_def)
  from failed_request_frame [where b = offline and sent = "[]" and e = failed_to_fetch
      and ?file = notes_file and others = "[]" and s = file_chosen
      and input = "\<lparr>files = Some [notes_file]\<rparr>" and fileName = "ascii ''notes.txt''"
      and ?s0.0 = with_document]
    failed_request_frame [where b = offline and sent = "[]" and e = failed_to_fetch
      and s = hello_typed and ?s0.0 = with_document]
    input typed failing
  show ?thesis by simp
qed

section \<open>Mounting\<close>

text \<open>
  C4, as stated, fails: the claim has the chunks fetched only if a current document is
  present, and the default status text shown when there is none. With the server
  unreachable the current-document request fails, the current document is cleared,
  and the chunks request is sent all the same; when it fails too, the status is the
  no-chunks text, not the default one.
\<close>

theorem mount_fetches_chunks_without_document:
  "map_option (\<lambda>p. (currentDoc (view p), map url (requests p)))
     (settle 1 (DocumentOutcome (Inl failed_to_fetch)) (mount initial_page)) =
     Some (None, [API_BASE @ ascii ''/api/storage/list'',
                  API_BASE @ ascii ''/api/document/current'',
                  API_BASE @ ascii ''/api/document/current/chunks''])
   \<and> map_option (\<lambda>p. status (view p))
        (Option.bind (settle 1 (DocumentOutcome (Inl failed_to_fetch)) (mount initial_page))
           (settle 1 (ChunksOutcome (Inl failed_to_fetch)))) = Some no_chunks_status
   \<and> no_chunks_status \<noteq> no_document_status"
  by (simp add: page_defs initial_page_def await_def setters
      no_chunks_status_def no_document_status_def)

text \<open>
  C4, amended. On mount the controller sends the storage-list request, then the
  current-document request; when the latter settles, with a document or with a
  failure, it sends the chunks request. If the current-document call throws, the
  current document is cleared and the status is the default text at that moment
  (no error is reported); if it returns a descriptor, that becomes the current
  document and the status describes it.
\<close>

theorem mount_sequence:
  "requests (mount p) = requests p @
     [\<lparr>url = API_BASE @ ascii ''/api/storage/list'', method = GET, headers = [], body = None\<rparr>,
      \<lparr>url = API_BASE @ ascii ''/api/document/current'', method = GET, headers = [], body = None\<rparr>]
   \<and> map_option requests (settle (Suc (length (pending p))) (DocumentOutcome x) (mount p)) =
       Some (requests (mount p) @
         [\<lparr>url = API_BASE @ ascii ''/api/document/current/chunks'', method = GET, headers = [],
           body = None\<rparr>])
   \<and> (resume (DocumentOutcome x) (getCurrentDocument () :: (app_state, UploadResponse) async)
         = Some (Throw e) \<longrightarrow>
       map_option (\<lambda>p'. (currentDoc (view p'), status (view p')))
         (settle (Suc (length (pending p))) (DocumentOutcome x) (mount p)) =
       Some (None, no_document_status))
   \<and> (resume (DocumentOutcome x) (getCurrentDocument () :: (app_state, UploadResponse) async)
         = Some (Return info) \<longrightarrow>
       map_option (\<lambda>p'. (currentDoc (view p'), status (view p')))
         (settle (Suc (length (pending p))) (DocumentOutcome x) (mount p)) =
       Some (Some info, current_document_status info))"
proof -
  let ?k = "bind (await x) handleResponse :: (app_state, UploadResponse) async"
  have "(\<exists>e. ?k = Throw e) \<or> (\<exists>v. ?k = Return v)"
    by (cases x) (auto simp: await_def handleResponse_def split: sum.splits)
  then show ?thesis
    by (auto simp: page_defs nth_append setters)
qed

theorem mount_sequence_witness:
  "resume (DocumentOutcome (respond notes_document))
     (getCurrentDocument () :: (app_state, UploadResponse) async) = Some (Return notes_document)
   \<and> resume (DocumentOutcome (refuse []))
     (getCurrentDocument () :: (app_state, UploadResponse) async) =
       Some (Throw (Error request_error_text))
   \<and> map url (requests (mount initial_page)) =
       [API_BASE @ ascii ''/api/storage/list'', API_BASE @ ascii ''/api/document/current'']
   \<and> map_option (\<lambda>p'. (currentDoc (view p'), status (view p'), map url (requests p')))
       (settle 1 (DocumentOutcome (respond notes_document)) (mount initial_page)) =
       Some (Some notes_document, current_document_status notes_document,
             [API_BASE @ ascii ''/api/storage/list'', API_BASE @ ascii ''/api/document/current'',
              API_BASE @ ascii ''/api/document/current/chunks''])
   \<and> map_option (\<lambda>p'. (currentDoc (view p'), status (view p'), map url (requests p')))
       (settle 1 (DocumentOutcome (refuse [])) (mount initial_page)) =
       Some (None, no_document_status,
             [API_BASE @ ascii ''/api/storage/list'', API_BASE @ ascii ''/api/document/current'',
              API_BASE @ ascii ''/api/document/current/chunks''])"
proof -
  have returns: "resume (DocumentOutcome (respond notes_document))
      (getCurrentDocument () :: (app_state, UploadResponse) async) = Some (Return notes_document)"
    by (simp add: getCurrentDocument_def respond_def await_def handleResponse_def)
  have throws: "resume (DocumentOutcome (refuse []))
      (getCurrentDocument () :: (app_state, UploadResponse) async) =
        Some (Throw (Error request_error_text))"
    by (simp add: getCurrentDocument_def refuse_def await_def handleResponse_def or_else_def)
  have start: "pending initial_page = []" "requests initial_page = []"
    by (simp_all add: initial_page_def)
  from mount_sequence [of initial_page "respond notes_document" _ notes_document]
    returns start
  have with_doc: "map_option (\<lambda>p'. (currentDoc (view p'), status (view p'), map url (requests p')))
       (settle 1 (DocumentOutcome (respond notes_document)) (mount initial_page)) =
       Some (Some notes_document, current_document_status notes_document,
             [API_BASE @ ascii ''/api/storage/list'', API_BASE @ ascii ''/api/document/current'',
              API_BASE @ ascii ''/api/document/current/chunks''])"
    by (cases "settle 1 (DocumentOutcome (respond notes_document)) (mount initial_page)") auto
  from mount_sequence [of initial_page "refuse []" "Error request_error_text"]
    throws start
  have without_doc: "map_option (\<lambda>p'. (currentDoc (view p'), status (view p'), map url (requests p')))
       (settle 1 (DocumentOutcome (refuse [])) (mount initial_page)) =
       Some (None, no_document_status,
             [API_BASE @ ascii ''/api/storage/list'', API_BASE @ ascii ''/api/document/current'',
              API_BASE @ ascii ''/api/document/current/chunks''])"
    by (cases "settle 1 (DocumentOutcome (refuse [])) (mount initial_page)") auto
  from mount_sequence [of initial_page "refuse []"] start
  have sent: "map url (requests (mount initial_page)) =
       [API_BASE @ ascii ''/api/storage/list'', API_BASE @ ascii ''/api/document/current'']"
    by simp
  from returns throws sent with_doc without_doc show ?thesis
    by simp
qed

section \<open>Search\<close>

text \<open>
  C5. If the query is empty or made of whitespace only, the search handler is the
  single state update that sets the prompt status: run against any backend it sends
  no request, and on the page a click on the search button changes the status and
  nothing else, neither the requests sent nor the handlers in flight.
\<close>

theorem blank_query_no_request:
  "list_all isWhiteSpace (query s) \<Longrightarrow>
     handleSearch s = setStatus enter_query_status
     \<and> run b (handleSearch s) s0 sent = (Inr (), s0\<lparr>status := enter_query_status\<rparr>, sent)
     \<and> (view p = s \<longrightarrow>
          handle ClickSearch p = p\<lparr>view := s\<lparr>status := enter_query_status\<rparr>\<rparr>)"
  by (simp add: handleSearch_def trim_blank setStatus_def)

theorem blank_query_no_request_witness:
  "list_all isWhiteSpace [0x20, 0x09, 0x0A, 0xA0]
   \<and> run serving (handleSearch (initial_state\<lparr>query := [0x20, 0x09, 0x0A, 0xA0]\<rparr>))
        (initial_state\<lparr>query := [0x20, 0x09, 0x0A, 0xA0]\<rparr>) [] =
       (Inr (), initial_state\<lparr>query := [0x20, 0x09, 0x0A, 0xA0],
                              status := enter_query_status\<rparr>, [])
   \<and> requests (handle ClickSearch
         (initial_page\<lparr>view := initial_state\<lparr>query := [0x20, 0x09, 0x0A, 0xA0]\<rparr>\<rparr>)) = []
   \<and> pending (handle ClickSearch
         (initial_page\<lparr>view := initial_state\<lparr>query := [0x20, 0x09, 0x0A, 0xA0]\<rparr>\<rparr>)) = []"
proof -
  let ?s = "initial_state\<lparr>query := [0x20, 0x09, 0x0A, 0xA0]\<rparr>"
  let ?p = "initial_page\<lparr>view := ?s\<rparr>"
  have blank: "list_all isWhiteSpace [0x20, 0x09, 0x0A, 0xA0]"
    by (simp add: isWhiteSpace_def)
  then have typed: "list_all isWhiteSpace (query ?s)"
    by simp
  have shown: "view ?p = ?s"
    by simp
  from blank_query_no_request [OF typed, of serving ?s "[]" ?p] shown blank
  show ?thesis
    by (simp add: initial_page_def setStatus_def)
qed

text \<open>
  C6. \<open>searchInDocument(query, topK)\<close> changes no state and sends exactly one
  request, a POST to \<open>/api/search\<close> under the base address, with the JSON content
  type and the body \<open>{query, top_k: topK}\<close>. When the backend answers that request
  with a success response whose body parses to \<open>v\<close>, the call returns \<open>v\<close>, whose
  \<open>results\<close> are the results of the response.
\<close>

theorem searchInDocument_request:
  "snd (run b (searchInDocument q k) s sent) =
     (s, sent @ [\<lparr>url = API_BASE @ ascii ''/api/search'', method = POST,
                  headers = [(ascii ''Content-Type'', ascii ''application/json'')],
                  body = Some (JSON_stringify
                    (JObject [(ascii ''query'', JString q), (ascii ''top_k'', JNumber k)]))\<rparr>])
   \<and> (\<forall>r v. fetchSearch b sent
              \<lparr>url = API_BASE @ ascii ''/api/search'', method = POST,
               headers = [(ascii ''Content-Type'', ascii ''application/json'')],
               body = Some (JSON_stringify
                 (JObject [(ascii ''query'', JString q), (ascii ''top_k'', JNumber k)]))\<rparr> = Inr r
            \<and> ok r \<and> json r = Inr v \<longrightarrow>
          fst (run b (searchInDocument q k) s sent) = Inr v
          \<and> map_sum id results (fst (run b (searchInDocument q k) s sent)) = Inr (results v))"
  by (simp add: searchInDocument_def run_received)

theorem searchInDocument_request_witness:
  "fetchSearch serving []
     \<lparr>url = API_BASE @ ascii ''/api/search'', method = POST,
      headers = [(ascii ''Content-Type'', ascii ''application/json'')],
      body = Some (JSON_stringify
        (JObject [(ascii ''query'', JString (ascii ''hello'')), (ascii ''top_k'', JNumber 3)]))\<rparr> =
     Inr \<lparr>ok = True, text = Inr [], json = Inr \<lparr>results = hello_results\<rparr>\<rparr>
   \<and> run serving (searchInDocument (ascii ''hello'') 3) () [] =
     (Inr \<lparr>results = hello_results\<rparr>, (),
      [\<lparr>url = API_BASE @ ascii ''/api/search'', method = POST,
        headers = [(ascii ''Content-Type'', ascii ''application/json'')],
        body = Some (JSON_stringify
          (JObject [(ascii ''query'', JString (ascii ''hello'')), (ascii ''top_k'', JNumber 3)]))\<rparr>])"
proof -
  let ?r = "\<lparr>ok = True, text = Inr [], json = Inr \<lparr>results = hello_results\<rparr>\<rparr>"
  have answered: "fetchSearch serving []
     \<lparr>url = API_BASE @ ascii ''/api/search'', method = POST,
      headers = [(ascii ''Content-Type'', ascii ''application/json'')],
      body = Some (JSON_stringify
        (JObject [(ascii ''query'', JString (ascii ''hello'')), (ascii ''top_k'', JNumber 3)]))\<rparr> =
     Inr ?r"
    by (simp add: serving_def respond_def)
  have success: "ok ?r \<and> json ?r = Inr \<lparr>results = hello_results\<rparr>"
    by simp
  from searchInDocument_request [of serving "ascii ''hello''" 3 "()" "[]"] answered success
  have "snd (run serving (searchInDocument (ascii ''hello'') 3) () []) =
     ((), [\<lparr>url = API_BASE @ ascii ''/api/search'', method = POST,
        headers = [(ascii ''Content-Type'', ascii ''application/json'')],
        body = Some (JSON_stringify
          (JObject [(ascii ''query'', JString (ascii ''hello'')), (ascii ''top_k'', JNumber 3)]))\<rparr>])"
    and "fst (run serving (searchInDocument (ascii ''hello'') 3) () []) =
       Inr \<lparr>results = hello_results\<rparr>"
    by simp_all
  with answered show ?thesis
    by (simp add: prod_eq_iff)
qed

text \<open>
  C7. When the search call of \<open>handleSearch\<close> succeeds with the response \<open>res\<close>, the
  handler ends with the search results being exactly \<open>res.results\<close>, whatever they
  were before, and with the status "results found: n" where \<open>n\<close> is the length of
  \<open>res.results\<close> in decimal; nothing else changes but the busy flag, which is off.
\<close>

theorem search_success:
  assumes "trim (query s) \<noteq> []"
    and "run b (searchInDocument (query s) (topK s)) () sent = (Inr res, (), sent')"
  shows "run b (handleSearch s) s0 sent =
           (Inr (), s0\<lparr>isLoading := False, searchResults := results res,
                        status := found_status (length (results res))\<rparr>, sent')
     \<and> (\<forall>n. status (fst (snd (run b (handleSearch s) s0 sent))) = found_status n \<longrightarrow>
          n = length (results res))"
  using assms
  by (auto simp: handleSearch_def run_control run_api setters dest: found_status_inj)

theorem search_success_witness:
  "trim (query hello_typed) \<noteq> []
   \<and> fst (run serving (searchInDocument (query hello_typed) (topK hello_typed)) () []) =
       Inr \<lparr>results = hello_results\<rparr>
   \<and> searchResults (fst (snd (run serving (handleSearch hello_typed) hello_typed []))) =
       hello_results
   \<and> status (fst (snd (run serving (handleSearch hello_typed) hello_typed []))) =
       found_status (length hello_results)
   \<and> String (int (length hello_results)) = ascii ''2''"
proof -
  let ?search = "\<lparr>url = API_BASE @ ascii ''/api/search'', method = POST,
      headers = [(ascii ''Content-Type'', ascii ''application/json'')],
      body = Some (JSON_stringify
        (JObject [(ascii ''query'', JString (query hello_typed)),
                  (ascii ''top_k'', JNumber (topK hello_typed))]))\<rparr>"
  have typed: "trim (query hello_typed) \<noteq> []"
    by (simp add: example_defs trim_def ascii_def isWhiteSpace_def)
  have found: "run serving (searchInDocument (query hello_typed) (topK hello_typed)) () [] =
      (Inr \<lparr>results = hello_results\<rparr>, (), [?search])"
    by (simp add: searchInDocument_def run_received serving_def respond_def)
  have two: "String (int (length hello_results)) = ascii ''2''"
    by (simp add: hello_results_def String_def digits.simps ascii_def)
  from search_success [OF typed found, of hello_typed, THEN conjunct1]
  have ended: "run serving (handleSearch hello_typed) hello_typed [] =
      (Inr (), hello_typed\<lparr>isLoading := False, searchResults := hello_results,
                           status := found_status (length hello_results)\<rparr>, [?search])"
    by simp
  have called: "fst (run serving (searchInDocument (query hello_typed) (topK hello_typed)) () []) =
      Inr \<lparr>results = hello_results\<rparr>"
    by (simp only: found fst_conv)
  have results: "searchResults (fst (snd (run serving (handleSearch hello_typed) hello_typed []))) =
      hello_results"
    by (simp only: ended) simp
  have reported: "status (fst (snd (run serving (handleSearch hello_typed) hello_typed []))) =
      found_status (length hello_results)"
    by (simp only: ended) simp
  from typed called results reported two show ?thesis
    by (intro conjI)
qed

section \<open>The busy flag\<close>








text \<open>
  C9. Each handler that sets the busy flag ends with the flag off, whatever the
  backend answers and whatever the state it runs on: make-current always, search
  whenever the query is not blank, upload-and-index whenever a file is chosen (on a
  blank query or without a file these two return before touching the flag).
\<close>

theorem busy_flag_reset:
  "isLoading (fst (snd (run b (handleMakeCurrent s fileName) s0 sent))) = False
   \<and> (trim (query s) \<noteq> [] \<longrightarrow>
        isLoading (fst (snd (run b (handleSearch s) s0 sent))) = False)
   \<and> (uploadInputRef s = Some input \<and> files input = Some (file # others) \<longrightarrow>
        isLoading (fst (snd (run b (handleUploadAndIndex s) s0 sent))) = False)"
  by (simp add: handleMakeCurrent_def handleSearch_def handleUploadAndIndex_def
      run_seq setIsLoading_def [of True] setStatus_def try_finally_resets)

theorem busy_flag_reset_witness:
  "trim (query hello_typed) \<noteq> []
   \<and> uploadInputRef file_chosen = Some \<lparr>files = Some [notes_file]\<rparr>
   \<and> isLoading (fst (snd (run offline (handleMakeCurrent initial_state (ascii ''notes.txt''))
        (initial_state\<lparr>isLoading := True\<rparr>) []))) = False
   \<and> isLoading (fst (snd (run offline (handleSearch hello_typed)
        (initial_state\<lparr>isLoading := True\<rparr>) []))) = False
   \<and> isLoading (fst (snd (run offline (handleUploadAndIndex file_chosen)
        (initial_state\<lparr>isLoading := True\<rparr>) []))) = False
   \<and> isLoading (fst (snd (run serving (handleMakeCurrent initial_state (ascii ''notes.txt''))
        (initial_state\<lparr>isLoading := True\<rparr>) []))) = False
   \<and> isLoading (fst (snd (run serving (handleSearch hello_typed)
        (initial_state\<lparr>isLoading := True\<rparr>) []))) = False
   \<and> isLoading (fst (snd (run serving (handleUploadAndIndex file_chosen)
        (initial_state\<lparr>isLoading := True\<rparr>) []))) = False"
proof -
  have typed: "trim (query hello_typed) \<noteq> []"
    by (simp add: example_defs trim_def ascii_def isWhiteSpace_def)
  have input: "uploadInputRef file_chosen = Some \<lparr>files = Some [notes_file]\<rparr>"
    "files \<lparr>files = Some [notes_file]\<rparr> = Some (notes_file # [])"
    by (simp_all add: example_defs)
  note failing = busy_flag_reset [of offline initial_state "ascii ''notes.txt''"
      "initial_state\<lparr>isLoading := True\<rparr>" "[]"]
    busy_flag_reset [of offline hello_typed _ "initial_state\<lparr>isLoading := True\<rparr>" "[]"]
    busy_flag_reset [of offline file_chosen _ "initial_state\<lparr>isLoading := True\<rparr>" "[]"
      "\<lparr>files = Some [notes_file]\<rparr>" notes_file "[]"]
  note succeeding = busy_flag_reset [of serving initial_state "ascii ''notes.txt''"
      "initial_state\<lparr>isLoading := True\<rparr>" "[]"]
    busy_flag_reset [of serving hello_typed _ "initial_state\<lparr>isLoading := True\<rparr>" "[]"]
    busy_flag_reset [of serving file_chosen _ "initial_state\<lparr>isLoading := True\<rparr>" "[]"
      "\<lparr>files = Some [notes_file]\<rparr>" notes_file "[]"]
  from failing succeeding typed input show ?thesis
    by simp
qed

text \<open>
  C10. When the upload-and-index call (or the make-current call) succeeds with \<open>resp\<close>
  and the chunks call that follows it fails, the chunk refresh leaves the no-chunks
  status behind, and the handler ends with an empty chunk list, \<open>resp\<close> as the
  current document, and the status that describes \<open>resp\<close> as the current document.
\<close>

theorem chunk_failure_keeps_success_status:
  "(uploadInputRef s = Some input \<and> files input = Some (file # others)
    \<and> run b (uploadAndIndexDocument
           [(ascii ''file'', FileValue file),
            (ascii ''encoder_name'', StringValue (encoder_text (encoderName s))),
            (ascii ''chunk_size'', StringValue (String (chunkSize s))),
            (ascii ''chunk_overlap'', StringValue (String (chunkOverlap s)))]) () sent
         = (Inr resp, (), sent')
    \<and> fst (run b (getCurrentChunks ()) () sent') = Inl e \<longrightarrow>
      status (fst (snd (run b refreshChunks (s0\<lparr>currentDoc := Some resp\<rparr>) sent'))) =
        no_chunks_status
    \<and> chunks (fst (snd (run b (handleUploadAndIndex s) s0 sent))) = []
    \<and> currentDoc (fst (snd (run b (handleUploadAndIndex s) s0 sent))) = Some resp
    \<and> status (fst (snd (run b (handleUploadAndIndex s) s0 sent))) =
        current_document_status resp)
   \<and> (run b (loadFromStorage
           \<lparr>LoadParams.file_name = fileName,
            LoadParams.encoder_name = encoder_text (encoderName s),
            LoadParams.chunk_size = chunkSize s,
            LoadParams.chunk_overlap = chunkOverlap s\<rparr>) () sent
         = (Inr resp', (), sent'')
    \<and> fst (run b (getCurrentChunks ()) () sent'') = Inl e \<longrightarrow>
      status (fst (snd (run b refreshChunks (s0\<lparr>currentDoc := Some resp'\<rparr>) sent''))) =
        no_chunks_status
    \<and> chunks (fst (snd (run b (handleMakeCurrent s fileName) s0 sent))) = []
    \<and> currentDoc (fst (snd (run b (handleMakeCurrent s fileName) s0 sent))) = Some resp'
    \<and> status (fst (snd (run b (handleMakeCurrent s fileName) s0 sent))) =
        current_document_status resp')"
  by (simp add: run_handleUploadAndIndex run_handleMakeCurrent run_refreshChunks)

theorem chunk_failure_keeps_success_status_witness:
  "fst (run serving_no_chunks (uploadAndIndexDocument
           [(ascii ''file'', FileValue notes_file),
            (ascii ''encoder_name'', StringValue (encoder_text (encoderName file_chosen))),
            (ascii ''chunk_size'', StringValue (String (chunkSize file_chosen))),
            (ascii ''chunk_overlap'', StringValue (String (chunkOverlap file_chosen)))]) () []) =
     Inr notes_document
   \<and> fst (run serving_no_chunks (loadFromStorage
           \<lparr>LoadParams.file_name = ascii ''notes.txt'',
            LoadParams.encoder_name = encoder_text (encoderName file_chosen),
            LoadParams.chunk_size = chunkSize file_chosen,
            LoadParams.chunk_overlap = chunkOverlap file_chosen\<rparr>) () []) = Inr notes_document
   \<and> chunks (fst (snd (run serving_no_chunks (handleUploadAndIndex file_chosen) with_document [])))
       = []
   \<and> status (fst (snd (run serving_no_chunks (handleUploadAndIndex file_chosen) with_document [])))
       = current_document_status notes_document
   \<and> chunks (fst (snd (run serving_no_chunks
         (handleMakeCurrent file_chosen (ascii ''notes.txt'')) with_document []))) = []
   \<and> status (fst (snd (run serving_no_chunks
         (handleMakeCurrent file_chosen (ascii ''notes.txt'')) with_document [])))
       = current_document_status notes_document"
proof -
  let ?form = "[(ascii ''file'', FileValue notes_file),
            (ascii ''encoder_name'', StringValue (encoder_text (encoderName file_chosen))),
            (ascii ''chunk_size'', StringValue (String (chunkSize file_chosen))),
            (ascii ''chunk_overlap'', StringValue (String (chunkOverlap file_chosen)))]"
  let ?params = "\<lparr>LoadParams.file_name = ascii ''notes.txt'',
            LoadParams.encoder_name = encoder_text (encoderName file_chosen),
            LoadParams.chunk_size = chunkSize file_chosen,
            LoadParams.chunk_overlap = chunkOverlap file_chosen\<rparr>"
  let ?upload = "\<lparr>url = API_BASE @ ascii ''/api/upload'', method = POST, headers = [],
      body = Some (Multipart ?form)\<rparr>"
  let ?load = "\<lparr>url = API_BASE @ ascii ''/api/storage/load'', method = POST,
      headers = [(ascii ''Content-Type'', ascii ''application/json'')],
      body = Some (JSON_stringify
        (JObject [(ascii ''file_name'', JString (LoadParams.file_name ?params)),
                  (ascii ''encoder_name'', JString (LoadParams.encoder_name ?params)),
                  (ascii ''chunk_size'', JNumber (LoadParams.chunk_size ?params)),
                  (ascii ''chunk_overlap'', JNumber (LoadParams.chunk_overlap ?params))]))\<rparr>"
  have input: "uploadInputRef file_chosen = Some \<lparr>files = Some [notes_file]\<rparr>"
    by (simp add: example_defs)
  have chosen: "files \<lparr>files = Some [notes_file]\<rparr> = Some (notes_file # [])"
    by simp
  have uploaded: "run serving_no_chunks (uploadAndIndexDocument ?form) () [] =
      (Inr notes_document, (), [?upload])"
    by (simp add: uploadAndIndexDocument_def run_received serving_no_chunks_def serving_def
        respond_def)
  have loaded: "run serving_no_chunks (loadFromStorage ?params) () [] =
      (Inr notes_document, (), [?load])"
    unfolding loadFromStorage_def
    by (simp add: run_received serving_no_chunks_def serving_def respond_def)
  have refused: "fst (run serving_no_chunks (getCurrentChunks ()) () sent) =
      Inl (Error (ascii ''No current document''))" for sent
    by (simp add: getCurrentChunks_def run_received serving_no_chunks_def serving_def
        refuse_def or_else_def ascii_def)
  note both = chunk_failure_keeps_success_status [where b = serving_no_chunks
      and s = file_chosen and input = "\<lparr>files = Some [notes_file]\<rparr>" and ?file = notes_file
      and others = "[]" and sent = "[]" and resp = notes_document and sent' = "[?upload]"
      and e = "Error (ascii ''No current document'')" and fileName = "ascii ''notes.txt''"
      and resp' = notes_document and sent'' = "[?load]" and ?s0.0 = with_document]
  have by_upload:
    "chunks (fst (snd (run serving_no_chunks (handleUploadAndIndex file_chosen) with_document [])))
       = []
     \<and> status (fst (snd (run serving_no_chunks (handleUploadAndIndex file_chosen)
          with_document []))) = current_document_status notes_document"
    using both [THEN conjunct1, THEN mp, OF conjI [OF input conjI [OF chosen
      conjI [OF uploaded refused [of "[?upload]"]]]]]
    by (simp only: simp_thms)
  have by_load:
    "chunks (fst (snd (run serving_no_chunks
         (handleMakeCurrent file_chosen (ascii ''notes.txt'')) with_document []))) = []
     \<and> status (fst (snd (run serving_no_chunks
         (handleMakeCurrent file_chosen (ascii ''notes.txt'')) with_document [])))
       = current_document_status notes_document"
    using both [THEN conjunct2, THEN mp, OF conjI [OF loaded refused [of "[?load]"]]]
    by (simp only: simp_thms)
  have uploaded_fst: "fst (run serving_no_chunks (uploadAndIndexDocument ?form) () []) =
      Inr notes_document"
    by (simp only: uploaded fst_conv)
  have loaded_fst: "fst (run serving_no_chunks (loadFromStorage ?params) () []) =
      Inr notes_document"
    by (simp only: loaded fst_conv)
  from uploaded_fst loaded_fst by_upload by_load show ?thesis
    by (simp only: simp_thms)
qed

end
